theory Spec2Isabelle
  imports Main "HOL-Library.Multiset"
begin

section \<open>Field errors (k8s.io/apimachinery/pkg/util/validation/field)\<close>

text \<open>
  A field path is the list of its segments, root first:
  \<open>field.NewPath("networks").Child("zones").Index(0).Child("internal")\<close> is
  \<open>[Key ''networks'', Key ''zones'', Idx 0, Key ''internal'']\<close>.  A nil
  \<open>*field.Path\<close> is \<open>None\<close>.
\<close>

datatype PathElem = Key string | Idx nat

type_synonym Path = "PathElem list"

definition NewPath :: "string \<Rightarrow> Path" where
  "NewPath name = [Key name]"

definition Child :: "Path \<Rightarrow> string list \<Rightarrow> Path" where
  "Child p names = p @ map Key names"

definition Index :: "Path \<Rightarrow> nat \<Rightarrow> Path" where
  "Index p i = p @ [Idx i]"

datatype ErrorType =
    ErrorTypeNotFound
  | ErrorTypeRequired
  | ErrorTypeDuplicate
  | ErrorTypeInvalid
  | ErrorTypeNotSupported
  | ErrorTypeForbidden
  | ErrorTypeTooLong
  | ErrorTypeInternal

text \<open>
  Modelled from the spec: the descriptor of an address block of the CIDR validation
  package (its source is not among the files of this repository): "a textual CIDR
  literal or empty" and "an optional field-path used only for error attribution".
\<close>

record CIDR =
  cidr :: string
  fieldPath :: "Path option"

section \<open>The provider API types\<close>

text \<open>
  Modelled from the spec: the type declarations of the provider API
  (\<open>apisaws.InfrastructureConfig\<close>) are not among the files of this repository.  The
  records hold the fields the validator reads: a zone's three CIDR strings, the two
  optional members of the VPC descriptor (\<open>*string\<close>, nil is \<open>None\<close>), and the
  ordered list of zones.
\<close>

record Zone =
  Internal :: string
  Public :: string
  Workers :: string

record VPC =
  ID :: "string option"
  CIDR :: "string option"

record Networks =
  VPC :: VPC
  Zones :: "Zone list"

record InfrastructureConfig =
  Networks :: Networks

text \<open>\<open>runtime.RawExtension\<close>: the raw bytes of a provider config, nil or present.\<close>

record RawExtension =
  Raw :: "string option"

text \<open>
  The value an error carries (\<open>BadValue interface{}\<close>): one constructor for each type of
  value the code hands to \<open>field.Invalid\<close>.
\<close>

datatype Value =
    NilValue
  | StringValue string
  | VPCValue VPC
  | NetworksValue Networks
  | RawExtensionValue "RawExtension option"

text \<open>
  The detail of an error.  The messages the code of this repository writes are literal
  strings (\<open>Text\<close>).  Modelled from the spec: the messages of the CIDR validation
  package, whose wording the spec does not give, are kept by what they report: a literal
  that is not in canonical form, a literal that does not parse, a block that must be a
  subset of the block of a descriptor, and a block that must not be a subset of the block
  of a descriptor.  The last two name the descriptor the check was called on, by its
  path and its literal, as the messages of the package do
  (\<open>must be a subset of "path" ("cidr")\<close>, \<open>must not be a subset of "path" ("cidr")\<close>);
  the block found at fault is named by the field and the value of the error.
\<close>

datatype Detail =
    Text string
  | NotCanonical
  | NotParseable
  | MustBeSubsetOf CIDR
  | MustNotBeSubsetOf CIDR

record Error =
  Type :: ErrorType
  Field' :: "Path option"
  BadValue :: Value
  Detail :: Detail

type_synonym ErrorList = "Error list"

text \<open>\<open>field.Required\<close>, \<open>field.Invalid\<close> and \<open>field.InternalError\<close>.\<close>

definition Required :: "Path option \<Rightarrow> string \<Rightarrow> Error" where
  "Required p detail =
     \<lparr>Type = ErrorTypeRequired, Field' = p, BadValue = StringValue [], Detail = Text detail\<rparr>"

definition Invalid :: "Path option \<Rightarrow> Value \<Rightarrow> Detail \<Rightarrow> Error" where
  "Invalid p v detail = \<lparr>Type = ErrorTypeInvalid, Field' = p, BadValue = v, Detail = detail\<rparr>"

definition InternalError :: "Path option \<Rightarrow> string \<Rightarrow> Error" where
  "InternalError p err =
     \<lparr>Type = ErrorTypeInternal, Field' = p, BadValue = NilValue, Detail = Text err\<rparr>"

section \<open>The CIDR validation package, as the validator calls it\<close>

text \<open>
  The validator calls seven functions of the package \<open>cidrvalidation\<close>, whose source is
  not among the files of this repository.  The validator is therefore written over any
  implementation \<open>L\<close> of them: a record with one member for each function called, named
  as in the source.  \<open>'c\<close> is the type of a descriptor; a value of the interface type
  \<open>cidrvalidation.CIDR\<close>, which may be nil, is a \<open>'c option\<close>.
\<close>

record 'c cidrvalidation =
  NewCIDR :: "string \<Rightarrow> Path option \<Rightarrow> 'c"
  ValidateCIDRIsCanonical :: "Path option \<Rightarrow> string \<Rightarrow> ErrorList"
  ValidateCIDRParse :: "'c option list \<Rightarrow> ErrorList"
  ValidateParse :: "'c \<Rightarrow> ErrorList"
  ValidateSubset :: "'c \<Rightarrow> 'c option list \<Rightarrow> ErrorList"
  ValidateNotSubset :: "'c \<Rightarrow> 'c option list \<Rightarrow> ErrorList"
  ValidateCIDROverlap :: "'c option list \<Rightarrow> 'c option list \<Rightarrow> bool \<Rightarrow> ErrorList"

section \<open>ValidateInfrastructureConfig\<close>

text \<open>
  The loop over \<open>infra.Networks.Zones\<close>.  The state is the triple of the three slices
  the loop appends to: \<open>allErrs\<close>, \<open>cidrs\<close> and \<open>workerCIDRs\<close>; \<open>i\<close> is the index of
  the zone at the head of the list.
\<close>

fun zonesLoop ::
  "'c cidrvalidation \<Rightarrow> Path \<Rightarrow> nat \<Rightarrow> Zone list \<Rightarrow>
   ErrorList \<times> 'c option list \<times> 'c option list \<Rightarrow>
   ErrorList \<times> 'c option list \<times> 'c option list" where
  "zonesLoop L networksPath i [] st = st"
| "zonesLoop L networksPath i (zone # zones) (allErrs, cidrs, workerCIDRs) =
     (let internalPath = Child (Index (Child networksPath [''zones'']) i) [''internal''];
          cidrs = cidrs @ [Some (NewCIDR L (Internal zone) (Some internalPath))];
          allErrs = allErrs @ ValidateCIDRIsCanonical L (Some internalPath) (Internal zone);
          publicPath = Child (Index (Child networksPath [''zones'']) i) [''public''];
          cidrs = cidrs @ [Some (NewCIDR L (Public zone) (Some publicPath))];
          allErrs = allErrs @ ValidateCIDRIsCanonical L (Some publicPath) (Public zone);
          workerPath = Child (Index (Child networksPath [''zones'']) i) [''workers''];
          cidrs = cidrs @ [Some (NewCIDR L (Workers zone) (Some workerPath))];
          allErrs = allErrs @ ValidateCIDRIsCanonical L (Some workerPath) (Workers zone);
          workerCIDRs = workerCIDRs @ [Some (NewCIDR L (Workers zone) (Some workerPath))]
      in zonesLoop L networksPath (Suc i) zones (allErrs, cidrs, workerCIDRs))"

text \<open>
  The validator.  \<open>nodesCIDR\<close> is a string, \<open>podsCIDR\<close> and \<open>servicesCIDR\<close> are
  \<open>*string\<close>.  \<open>nodes\<close> holds the descriptor \<open>NewCIDR\<close> returned, so the source's test
  \<open>nodes != nil\<close> succeeds; \<open>pods\<close> and \<open>services\<close> stay nil when their string is
  nil.
\<close>

definition ValidateInfrastructureConfig ::
  "'c cidrvalidation \<Rightarrow> InfrastructureConfig \<Rightarrow> string \<Rightarrow> string option \<Rightarrow> string option \<Rightarrow>
   ErrorList" where
  "ValidateInfrastructureConfig L infra nodesCIDR podsCIDR servicesCIDR =
     (let allErrs = [];
          nodes = Some (NewCIDR L nodesCIDR None);
          pods = (case podsCIDR of None \<Rightarrow> None | Some s \<Rightarrow> Some (NewCIDR L s None));
          services = (case servicesCIDR of None \<Rightarrow> None | Some s \<Rightarrow> Some (NewCIDR L s None));
          networksPath = NewPath ''networks'';
          allErrs =
            (if length (Zones (Networks infra)) = 0
             then allErrs @ [Required (Some (Child networksPath [''zones'']))
                    ''must specify at least the networks for one zone'']
             else allErrs);
          (allErrs, cidrs, workerCIDRs) =
            zonesLoop L networksPath 0 (Zones (Networks infra)) (allErrs, [], []);
          allErrs = allErrs @ ValidateCIDRParse L cidrs;
          allErrs =
            (case nodes of
               None \<Rightarrow> allErrs
             | Some n \<Rightarrow> allErrs @ ValidateSubset L n workerCIDRs);
          vpc = VPC (Networks infra);
          allErrs =
            (if (ID vpc = None \<and> CIDR vpc = None) \<or> (ID vpc \<noteq> None \<and> CIDR vpc \<noteq> None)
             then allErrs @ [Invalid (Some (Child networksPath [''vpc''])) (VPCValue vpc)
                    (Text ''must specify either a vpc id or a cidr'')]
             else if CIDR vpc \<noteq> None \<and> ID vpc = None
             then (case CIDR vpc of
                     None \<Rightarrow> allErrs
                   | Some c \<Rightarrow>
                       (let cidrPath = Child networksPath [''vpc'', ''cidr''];
                            vpcCIDR = NewCIDR L c (Some cidrPath);
                            allErrs = allErrs @ ValidateCIDRIsCanonical L (Some cidrPath) c;
                            allErrs = allErrs @ ValidateParse L vpcCIDR;
                            allErrs = allErrs @ ValidateSubset L vpcCIDR [nodes];
                            allErrs = allErrs @ ValidateSubset L vpcCIDR cidrs;
                            allErrs = allErrs @ ValidateNotSubset L vpcCIDR [pods, services]
                        in allErrs))
             else allErrs);
          allErrs = allErrs @ ValidateCIDROverlap L cidrs cidrs False;
          allErrs = allErrs @ ValidateCIDROverlap L [pods, services] cidrs False
      in allErrs)"

text \<open>
  \<open>apivalidation.ValidateImmutableField\<close> of k8s.io/apimachinery, which is not part of
  this repository.  Modelled from the spec: "any difference is a single
  Invalid/immutability error" on the given field.  The two values are compared by
  \<open>apiequality.Semantic.DeepEqual\<close>, which follows pointers and compares slices element
  by element: the equality of the records.
\<close>

definition ValidateImmutableField :: "Value \<Rightarrow> Value \<Rightarrow> Path option \<Rightarrow> ErrorList" where
  "ValidateImmutableField newVal oldVal fldPath =
     (let allErrs = [] in
      if oldVal \<noteq> newVal
      then allErrs @ [Invalid fldPath newVal (Text ''field is immutable'')]
      else allErrs)"

definition ValidateInfrastructureConfigUpdate ::
  "'c cidrvalidation \<Rightarrow> InfrastructureConfig \<Rightarrow> InfrastructureConfig \<Rightarrow>
   string \<Rightarrow> string option \<Rightarrow> string option \<Rightarrow> ErrorList" where
  "ValidateInfrastructureConfigUpdate L oldConfig newConfig nodesCIDR podsCIDR servicesCIDR =
     (let allErrs = [];
          allErrs = allErrs @ ValidateImmutableField (NetworksValue (Networks newConfig))
                      (NetworksValue (Networks oldConfig)) (Some (NewPath ''networks''));
          allErrs = allErrs @
                      ValidateInfrastructureConfig L newConfig nodesCIDR podsCIDR servicesCIDR
      in allErrs)"

section \<open>The provider's validator (the calling layer)\<close>

text \<open>
  Modelled from the spec: the resource types of \<open>extensionsv1alpha1\<close> and the cluster
  type are declared outside this repository's files.  The records hold what the
  validator reads: the provider config of an infrastructure, the pools of a worker with
  their provider config and volume, and of the cluster the networking of its shoot
  (\<open>cluster.CoreShoot.Spec.Networking\<close>; \<open>CoreShoot\<close> is a pointer).
\<close>

record Infrastructure =
  ProviderConfig :: "RawExtension option"

record Volume =
  VolumeType :: "string option"

record WorkerPool =
  PoolProviderConfig :: "RawExtension option"
  PoolVolume :: "Volume option"

record Worker =
  Pools :: "WorkerPool list"

record Shoot =
  Nodes :: string
  Pods :: "string option"
  Services :: "string option"

record Cluster =
  CoreShoot :: "Shoot option"

text \<open>
  A \<open>runtime.Object\<close>: one constructor for each type the two validators switch on, and
  \<open>Other\<close> for any other type; \<open>'o\<close> is the content of the objects this development
  never looks into.  A nil \<open>runtime.Object\<close> is \<open>None\<close>.
\<close>

datatype 'o Object =
    BackupBucket 'o
  | BackupEntry 'o
  | ControlPlane 'o
  | Extension 'o
  | Infrastructure Infrastructure
  | Network 'o
  | OperatingSystemConfig 'o
  | Worker Worker
  | Other 'o

text \<open>A run-time panic of the Go program.\<close>

datatype panic = NilDereference | TypeAssertion

text \<open>
  The validator struct.  Its decoder is the function from the raw bytes to the decoded
  config or to the decoder's error (its text); it decodes into the two config types.
  The worker config type and \<open>validation.ValidateWorkerConfig\<close> are not among the files
  and are members of the record (\<open>'w\<close> is the worker config).
\<close>

record ('c, 'w) validator =
  cidrPackage :: "'c cidrvalidation"
  DecodeInfrastructureConfig :: "string \<Rightarrow> string + InfrastructureConfig"
  DecodeWorkerConfig :: "string \<Rightarrow> string + 'w"
  ValidateWorkerConfig :: "'w \<Rightarrow> string option \<Rightarrow> ErrorList"

text \<open>
  \<open>infrastructureConfigFrom\<close> returns a config or a non-nil error list: \<open>Inl\<close> is the
  error list.
\<close>

definition infrastructureConfigFrom ::
  "('c, 'w) validator \<Rightarrow> Infrastructure \<Rightarrow> Cluster \<Rightarrow> ErrorList + InfrastructureConfig" where
  "infrastructureConfigFrom v infra cluster =
     (case ProviderConfig infra of
        None \<Rightarrow> Inl [Invalid None (RawExtensionValue (ProviderConfig infra))
                 (Text ''no infrastructureConfig provided'')]
      | Some pc \<Rightarrow>
          (case Raw pc of
             None \<Rightarrow> Inl [Invalid None (RawExtensionValue (ProviderConfig infra))
                      (Text ''no infrastructureConfig provided'')]
           | Some raw \<Rightarrow>
               (case DecodeInfrastructureConfig v raw of
                  Inl err \<Rightarrow> Inl [InternalError None (''could not decode provider config: '' @ err)]
                | Inr infrastructureConfig \<Rightarrow> Inr infrastructureConfig)))"

definition ValidateInfrastructure ::
  "('c, 'w) validator \<Rightarrow> Cluster \<Rightarrow> Infrastructure \<Rightarrow> panic + ErrorList" where
  "ValidateInfrastructure v cluster infrastructure =
     (case infrastructureConfigFrom v infrastructure cluster of
        Inl errs \<Rightarrow> Inr errs
      | Inr infrastructureConfig \<Rightarrow>
          (case CoreShoot cluster of
             None \<Rightarrow> Inl NilDereference
           | Some shoot \<Rightarrow>
               Inr (ValidateInfrastructureConfig (cidrPackage v) infrastructureConfig
                      (Nodes shoot) (Pods shoot) (Services shoot))))"

definition ValidateInfrastructureUpdate ::
  "('c, 'w) validator \<Rightarrow> Cluster \<Rightarrow> Infrastructure \<Rightarrow> Infrastructure \<Rightarrow> panic + ErrorList" where
  "ValidateInfrastructureUpdate v cluster oldInfra newInfra =
     (case infrastructureConfigFrom v oldInfra cluster of
        Inl errs \<Rightarrow> Inr errs
      | Inr oldInfrastructureConfig \<Rightarrow>
          (case infrastructureConfigFrom v newInfra cluster of
             Inl errs \<Rightarrow> Inr errs
           | Inr newInfrastructureConfig \<Rightarrow>
               (case CoreShoot cluster of
                  None \<Rightarrow> Inl NilDereference
                | Some shoot \<Rightarrow>
                    Inr (ValidateInfrastructureConfigUpdate (cidrPackage v) oldInfrastructureConfig
                           newInfrastructureConfig (Nodes shoot) (Pods shoot) (Services shoot)))))"

text \<open>
  The loop of \<open>ValidateWorker\<close> over \<open>worker.Spec.Pools\<close>; each \<open>return\<close> inside the
  loop ends the recursion.
\<close>

fun poolsLoop :: "('c, 'w) validator \<Rightarrow> nat \<Rightarrow> WorkerPool list \<Rightarrow> ErrorList \<Rightarrow> ErrorList" where
  "poolsLoop v i [] allErrs = allErrs"
| "poolsLoop v i (pool # pools) allErrs =
     (case (case PoolProviderConfig pool of None \<Rightarrow> None | Some pc \<Rightarrow> Raw pc) of
        None \<Rightarrow> poolsLoop v (Suc i) pools allErrs
      | Some raw \<Rightarrow>
          (let volumePath = Child (Index (NewPath ''pools'') i) [''volume''] in
           case PoolVolume pool of
             None \<Rightarrow> allErrs @ [Required (Some volumePath) ''volume is required'']
           | Some volume \<Rightarrow>
               (case VolumeType volume of
                  None \<Rightarrow> allErrs @ [Required (Some (Child volumePath [''type'']))
                             ''volume type is required'']
                | Some t \<Rightarrow>
                    (case DecodeWorkerConfig v raw of
                       Inl err \<Rightarrow>
                         [InternalError None (''could not decode provider config: '' @ err)]
                     | Inr workerConfig \<Rightarrow>
                         poolsLoop v (Suc i) pools
                           (allErrs @ ValidateWorkerConfig v workerConfig (Some t))))))"

definition ValidateWorker ::
  "('c, 'w) validator \<Rightarrow> Cluster \<Rightarrow> 'o Object option \<Rightarrow> ErrorList" where
  "ValidateWorker v cluster obj =
     (case obj of
        Some (Worker worker) \<Rightarrow> poolsLoop v 0 (Pools worker) []
      | _ \<Rightarrow> [InternalError None ''expected extensionsv1alpha1.Worker but got something else''])"

definition Validate ::
  "('c, 'w) validator \<Rightarrow> Cluster \<Rightarrow> 'o Object option \<Rightarrow> panic + ErrorList" where
  "Validate v cluster obj =
     (case obj of
        Some (Infrastructure x) \<Rightarrow> ValidateInfrastructure v cluster x
      | Some (Worker x) \<Rightarrow> Inr (ValidateWorker v cluster obj)
      | _ \<Rightarrow> Inr [])"

definition ValidateWorkerUpdate ::
  "('c, 'w) validator \<Rightarrow> Cluster \<Rightarrow> 'o Object option \<Rightarrow> 'o Object option \<Rightarrow>
   panic + ErrorList" where
  "ValidateWorkerUpdate v cluster oldObj newObj = Validate v cluster newObj"

text \<open>
  \<open>ValidateUpdate\<close> switches on the type of \<open>newObj\<close>; the unchecked type assertions on
  \<open>oldObj\<close> panic when \<open>oldObj\<close> is nil or of another type.
\<close>

definition ValidateUpdate ::
  "('c, 'w) validator \<Rightarrow> Cluster \<Rightarrow> 'o Object option \<Rightarrow> 'o Object option \<Rightarrow>
   panic + ErrorList" where
  "ValidateUpdate v cluster oldObj newObj =
     (case newObj of
        Some (Infrastructure x) \<Rightarrow>
          (case oldObj of
             Some (Infrastructure y) \<Rightarrow> ValidateInfrastructureUpdate v cluster y x
           | _ \<Rightarrow> Inl TypeAssertion)
      | Some (Worker x) \<Rightarrow>
          (case oldObj of
             Some (Worker y) \<Rightarrow> ValidateWorkerUpdate v cluster oldObj newObj
           | _ \<Rightarrow> Inl TypeAssertion)
      | _ \<Rightarrow> Inr [])"

section \<open>The generic validator\<close>

text \<open>
  A Go \<open>error\<close>: one from outside (its text), \<open>errors.Wrapf\<close> of an error with a
  message, and \<open>fmt.Errorf("%+v", allErrs)\<close>, the error whose text is the formatted
  error list; it is kept as the list it formats.
\<close>

datatype error = Err string | Wrapf error string | Errorf ErrorList

text \<open>
  The functions of \<open>extensionsvalidation\<close> the generic validator calls; they belong to
  another repository and are members of a record, named as in the source
  (\<open>ValidateInfrastructure\<close> and \<open>ValidateWorker\<close>, which are also names of the
  provider's validator above, with \<open>Object\<close> added).
\<close>

record 'o extensionsvalidation =
  ValidateBackupBucket :: "'o \<Rightarrow> ErrorList"
  ValidateBackupBucketUpdate :: "'o \<Rightarrow> 'o \<Rightarrow> ErrorList"
  ValidateBackupEntry :: "'o \<Rightarrow> ErrorList"
  ValidateBackupEntryUpdate :: "'o \<Rightarrow> 'o \<Rightarrow> ErrorList"
  ValidateControlPlane :: "'o \<Rightarrow> ErrorList"
  ValidateControlPlaneUpdate :: "'o \<Rightarrow> 'o \<Rightarrow> ErrorList"
  ValidateExtension :: "'o \<Rightarrow> ErrorList"
  ValidateExtensionUpdate :: "'o \<Rightarrow> 'o \<Rightarrow> ErrorList"
  ValidateInfrastructureObject :: "Infrastructure \<Rightarrow> ErrorList"
  ValidateInfrastructureObjectUpdate :: "Infrastructure \<Rightarrow> Infrastructure \<Rightarrow> ErrorList"
  ValidateNetwork :: "'o \<Rightarrow> ErrorList"
  ValidateNetworkUpdate :: "'o \<Rightarrow> 'o \<Rightarrow> ErrorList"
  ValidateOperatingSystemConfig :: "'o \<Rightarrow> ErrorList"
  ValidateOperatingSystemConfigUpdate :: "'o \<Rightarrow> 'o \<Rightarrow> ErrorList"
  ValidateWorkerObject :: "Worker \<Rightarrow> ErrorList"
  ValidateWorkerObjectUpdate :: "Worker \<Rightarrow> Worker \<Rightarrow> ErrorList"

text \<open>
  The generic validator's struct and what it reaches through it: \<open>Accessor\<close> is
  \<open>meta.Accessor\<close> followed by \<open>GetNamespace\<close> (the namespace, or the accessor's
  error), \<open>GetCluster\<close> the lookup of the cluster of a namespace through the client, and
  the last two members are the methods of the provider's \<open>Validator\<close> interface.
\<close>

record 'o genericvalidator =
  Accessor :: "'o Object option \<Rightarrow> error + string"
  GetCluster :: "string \<Rightarrow> error + Cluster"
  extensionsvalidation :: "'o extensionsvalidation"
  validatorValidate :: "Cluster \<Rightarrow> 'o Object option \<Rightarrow> ErrorList"
  validatorValidateUpdate :: "Cluster \<Rightarrow> 'o Object option \<Rightarrow> 'o Object option \<Rightarrow> ErrorList"

text \<open>
  The type switch on \<open>newObj\<close>: the error list of the generic validation of the
  extension object.  It stays nil when \<open>oldObj\<close> is of another type than \<open>newObj\<close>.
\<close>

definition extensionErrs ::
  "'o extensionsvalidation \<Rightarrow> 'o Object option \<Rightarrow> 'o Object option \<Rightarrow> ErrorList" where
  "extensionErrs E oldObj newObj =
     (case newObj of
        Some (BackupBucket x) \<Rightarrow>
          (case oldObj of None \<Rightarrow> ValidateBackupBucket E x
           | Some (BackupBucket y) \<Rightarrow> ValidateBackupBucketUpdate E x y | _ \<Rightarrow> [])
      | Some (BackupEntry x) \<Rightarrow>
          (case oldObj of None \<Rightarrow> ValidateBackupEntry E x
           | Some (BackupEntry y) \<Rightarrow> ValidateBackupEntryUpdate E x y | _ \<Rightarrow> [])
      | Some (ControlPlane x) \<Rightarrow>
          (case oldObj of None \<Rightarrow> ValidateControlPlane E x
           | Some (ControlPlane y) \<Rightarrow> ValidateControlPlaneUpdate E x y | _ \<Rightarrow> [])
      | Some (Extension x) \<Rightarrow>
          (case oldObj of None \<Rightarrow> ValidateExtension E x
           | Some (Extension y) \<Rightarrow> ValidateExtensionUpdate E x y | _ \<Rightarrow> [])
      | Some (Infrastructure x) \<Rightarrow>
          (case oldObj of None \<Rightarrow> ValidateInfrastructureObject E x
           | Some (Infrastructure y) \<Rightarrow> ValidateInfrastructureObjectUpdate E x y | _ \<Rightarrow> [])
      | Some (Network x) \<Rightarrow>
          (case oldObj of None \<Rightarrow> ValidateNetwork E x
           | Some (Network y) \<Rightarrow> ValidateNetworkUpdate E x y | _ \<Rightarrow> [])
      | Some (OperatingSystemConfig x) \<Rightarrow>
          (case oldObj of None \<Rightarrow> ValidateOperatingSystemConfig E x
           | Some (OperatingSystemConfig y) \<Rightarrow> ValidateOperatingSystemConfigUpdate E x y
           | _ \<Rightarrow> [])
      | Some (Worker x) \<Rightarrow>
          (case oldObj of None \<Rightarrow> ValidateWorkerObject E x
           | Some (Worker y) \<Rightarrow> ValidateWorkerObjectUpdate E x y | _ \<Rightarrow> [])
      | _ \<Rightarrow> [])"

text \<open>
  The error list the generic validator builds once it has the cluster: the generic
  validation's errors, then the provider validator's.
\<close>

definition combinedErrs ::
  "'o genericvalidator \<Rightarrow> Cluster \<Rightarrow> 'o Object option \<Rightarrow> 'o Object option \<Rightarrow> ErrorList" where
  "combinedErrs v cluster oldObj newObj =
     (let allErrs = extensionErrs (extensionsvalidation v) oldObj newObj in
      if oldObj = None
      then allErrs @ validatorValidate v cluster newObj
      else allErrs @ validatorValidateUpdate v cluster oldObj newObj)"

text \<open>The generic validator's \<open>Validate\<close>; a nil error is \<open>None\<close>.\<close>

definition genericValidate ::
  "'o genericvalidator \<Rightarrow> 'o Object option \<Rightarrow> 'o Object option \<Rightarrow> error option" where
  "genericValidate v oldObj newObj =
     (case Accessor v newObj of
        Inl err \<Rightarrow> Some (Wrapf err ''could not create accessor during webhook'')
      | Inr namespace \<Rightarrow>
          (case GetCluster v namespace of
             Inl err \<Rightarrow>
               Some (Wrapf err (''could not get cluster for namespace '' @
                       [CHR 0x27] @ namespace @ [CHR 0x27]))
           | Inr cluster \<Rightarrow>
               (let allErrs = combinedErrs v cluster oldObj newObj in
                if length allErrs > 0 then Some (Errorf allErrs) else None)))"

section \<open>Address blocks\<close>

text \<open>
  A parsed block (\<open>net.IPNet\<close>): the network address as a number, the length of the
  prefix, and the width of an address in bits (32 or 128).  The block holds the
  \<open>2 ^ (bits - ones)\<close> addresses that start at the network address.
\<close>

record IPNet =
  IP :: nat
  ones :: nat
  bits :: nat

definition blockSize :: "IPNet \<Rightarrow> nat" where
  "blockSize n = 2 ^ (bits n - ones n)"

text \<open>The addresses of a block, each with the width of its family.\<close>

definition addresses :: "IPNet \<Rightarrow> (nat \<times> nat) set" where
  "addresses n = {bits n} \<times> {IP n ..< IP n + blockSize n}"

text \<open>
  \<open>net.IPNet.Contains\<close> of the Go library, for an address \<open>a\<close> of the width \<open>w\<close>: the
  address has the width of the block and agrees with the network address on the bits of
  the prefix.
\<close>

definition Contains :: "IPNet \<Rightarrow> nat \<Rightarrow> nat \<Rightarrow> bool" where
  "Contains n w a \<longleftrightarrow> w = bits n \<and> a div blockSize n = IP n div blockSize n"

text \<open>
  A block as \<open>net.ParseCIDR\<close> returns it: the bits of the network address beyond the
  prefix are cleared.
\<close>

definition masked :: "IPNet \<Rightarrow> bool" where
  "masked n \<longleftrightarrow> ones n \<le> bits n \<and> IP n mod blockSize n = 0"

subsection \<open>Parsing an IPv4 block\<close>

text \<open>
  \<open>net.ParseCIDR\<close> of the Go library, for the literals of IPv4: four decimal numbers of
  at most 255 separated by dots, a slash, and a prefix length of at most 32.  It returns
  the address written and the block, whose network address is the address with the bits
  beyond the prefix cleared.  IPv6 literals are not modelled (they do not parse here);
  every theorem below that is not about a particular literal holds for any parser.
\<close>

definition isDigit :: "char \<Rightarrow> bool" where
  "isDigit c \<longleftrightarrow> 48 \<le> (of_char c :: nat) \<and> (of_char c :: nat) \<le> 57"

text \<open>
  \<open>dtoi\<close>: the number written by the leading decimal digits, and the rest of the
  string; it fails when there is no digit or when the number reaches \<open>0xFFFFFF\<close>.
\<close>

definition dtoi :: "string \<Rightarrow> (nat \<times> string) option" where
  "dtoi s =
     (let ds = takeWhile isDigit s;
          n = foldl (\<lambda>n c. n * 10 + ((of_char c :: nat) - 48)) 0 ds
      in if ds = [] \<or> n \<ge> 0xFFFFFF then None else Some (n, dropWhile isDigit s))"

text \<open>
  The loop of \<open>parseIPv4\<close>: \<open>k\<close> fields are still to be read, \<open>first\<close> says that no
  field was read yet (no dot is expected), \<open>acc\<close> is the number of the bytes read.
\<close>

fun parseIPv4Loop :: "nat \<Rightarrow> bool \<Rightarrow> string \<Rightarrow> nat \<Rightarrow> nat option" where
  "parseIPv4Loop 0 first s acc = (if s = [] then Some acc else None)"
| "parseIPv4Loop (Suc k) first s acc =
     (if s = [] then None
      else if \<not> first \<and> hd s \<noteq> CHR ''.'' then None
      else (case dtoi (if first then s else tl s) of
              None \<Rightarrow> None
            | Some (n, rest) \<Rightarrow>
                if n > 0xFF then None else parseIPv4Loop k False rest (acc * 256 + n)))"

definition parseIPv4 :: "string \<Rightarrow> nat option" where
  "parseIPv4 s = parseIPv4Loop (Suc (Suc (Suc (Suc 0)))) True s 0"

definition ParseCIDR :: "string \<Rightarrow> (nat \<times> IPNet) option" where
  "ParseCIDR s =
     (if CHR ''/'' \<notin> set s then None
      else
        (let addr = takeWhile (\<lambda>c. c \<noteq> CHR ''/'') s;
             mask = tl (dropWhile (\<lambda>c. c \<noteq> CHR ''/'') s)
         in case parseIPv4 addr of
              None \<Rightarrow> None
            | Some ip \<Rightarrow>
                (case dtoi mask of
                   None \<Rightarrow> None
                 | Some (n, rest) \<Rightarrow>
                     if rest \<noteq> [] \<or> n > 32 then None
                     else Some (ip, \<lparr>IP = (ip div 2 ^ (32 - n)) * 2 ^ (32 - n),
                                      ones = n, bits = 32\<rparr>))))"

section \<open>The CIDR validation package\<close>

text \<open>
  Modelled from the spec: the functions of the package \<open>cidrvalidation\<close>
  (\<open>github.com/gardener/gardener/pkg/utils/validation/cidr\<close>) are not among the files of
  this repository.  The spec describes them through the steps of the algorithm that call
  them.  Where its words are looser than the behaviour of the package, the definitions
  follow the package, function by function; the spec's end-to-end scenario, in which the
  node block \<open>10.0.0.0/8\<close> passes the check that it is a subset of the VPC block
  \<open>10.0.0.0/16\<close>, is an instance of that behaviour.  \<open>P\<close> is the parser of a CIDR
  literal (\<open>net.ParseCIDR\<close>: the address written and its block, or nothing).

  \<^item> \<open>NewCIDR\<close> keeps the literal and the path; the block and the parse error that the
    descriptor stores are those of \<open>P\<close> on its literal (\<open>GetIPNet\<close>).
  \<^item> \<open>ValidateCIDRIsCanonical\<close> reports nothing for the empty string and for a literal
    that does not parse, and one \<open>Invalid\<close> error at the given path when the address
    written is not the network address of its block.
  \<^item> \<open>ValidateParse\<close> reports one \<open>Invalid\<close> error at the descriptor's path, with its
    literal, when the literal does not parse; \<open>ValidateCIDRParse\<close> does so for every
    descriptor that is not nil.
\<close>

definition specNewCIDR :: "string \<Rightarrow> Path option \<Rightarrow> CIDR" where
  "specNewCIDR c f = \<lparr>cidr = c, fieldPath = f\<rparr>"

definition GetIPNet :: "(string \<Rightarrow> (nat \<times> IPNet) option) \<Rightarrow> CIDR \<Rightarrow> IPNet option" where
  "GetIPNet P c = (case P (cidr c) of None \<Rightarrow> None | Some (ip, n) \<Rightarrow> Some n)"

definition specValidateCIDRIsCanonical ::
  "(string \<Rightarrow> (nat \<times> IPNet) option) \<Rightarrow> Path option \<Rightarrow> string \<Rightarrow> ErrorList" where
  "specValidateCIDRIsCanonical P fldPath cidrToValidate =
     (if length cidrToValidate = 0 then []
      else (case P cidrToValidate of
              None \<Rightarrow> []
            | Some (ip, n) \<Rightarrow>
                if ip \<noteq> IP n then [Invalid fldPath (StringValue cidrToValidate) NotCanonical]
                else []))"

definition specValidateParse :: "(string \<Rightarrow> (nat \<times> IPNet) option) \<Rightarrow> CIDR \<Rightarrow> ErrorList" where
  "specValidateParse P c =
     (case GetIPNet P c of
        None \<Rightarrow> [Invalid (fieldPath c) (StringValue (cidr c)) NotParseable]
      | Some n \<Rightarrow> [])"

definition specValidateCIDRParse ::
  "(string \<Rightarrow> (nat \<times> IPNet) option) \<Rightarrow> CIDR option list \<Rightarrow> ErrorList" where
  "specValidateCIDRParse P cidrPaths =
     concat (map (\<lambda>c. case c of None \<Rightarrow> [] | Some c \<Rightarrow> specValidateParse P c) cidrPaths)"

text \<open>
  Modelled from the spec, steps 4 and 6 ("assert it is a superset of every entry"; "each
  violation appends one \<open>Invalid\<close> error at that worker's field path"), with the test of
  the package: \<open>ValidateSubset\<close> of a descriptor \<open>c\<close> reports nothing when \<open>c\<close> does
  not parse; it passes over an entry that is nil, that is \<open>c\<close> itself, or that does not
  parse; and it reports an entry when the block of \<open>c\<close> does not contain the network
  address of the entry's block.  The error is on the entry's path, with the entry's
  literal, and its message names \<open>c\<close>.

  Two descriptors are the same object when they are equal: wherever the validator hands
  a descriptor and a list of entries to one call, two distinct objects differ in their
  path.
\<close>

definition specValidateSubset ::
  "(string \<Rightarrow> (nat \<times> IPNet) option) \<Rightarrow> CIDR \<Rightarrow> CIDR option list \<Rightarrow> ErrorList" where
  "specValidateSubset P c subsets =
     (case GetIPNet P c of
        None \<Rightarrow> []
      | Some n \<Rightarrow>
          concat (map (\<lambda>s. case s of
                              None \<Rightarrow> []
                            | Some sub \<Rightarrow>
                                if sub = c then []
                                else (case GetIPNet P sub of
                                        None \<Rightarrow> []
                                      | Some m \<Rightarrow>
                                          if \<not> Contains n (bits m) (IP m)
                                          then [Invalid (fieldPath sub) (StringValue (cidr sub))
                                                  (MustBeSubsetOf c)]
                                          else []))
                 subsets))"

text \<open>
  Modelled from the spec, step 6 (the VPC block against the pod and service blocks), with
  the test of the package: \<open>ValidateNotSubset\<close> passes over the same entries as
  \<open>ValidateSubset\<close>, and reports an entry when the block of \<open>c\<close> contains the network
  address of the entry's block; the error is on the entry's path, with the entry's
  literal, and its message names \<open>c\<close>.
\<close>

definition specValidateNotSubset ::
  "(string \<Rightarrow> (nat \<times> IPNet) option) \<Rightarrow> CIDR \<Rightarrow> CIDR option list \<Rightarrow> ErrorList" where
  "specValidateNotSubset P c subsets =
     (case GetIPNet P c of
        None \<Rightarrow> []
      | Some n \<Rightarrow>
          concat (map (\<lambda>s. case s of
                              None \<Rightarrow> []
                            | Some sub \<Rightarrow>
                                if sub = c then []
                                else (case GetIPNet P sub of
                                        None \<Rightarrow> []
                                      | Some m \<Rightarrow>
                                          if Contains n (bits m) (IP m)
                                          then [Invalid (fieldPath sub) (StringValue (cidr sub))
                                                  (MustNotBeSubsetOf c)]
                                          else []))
                 subsets))"

text \<open>
  Modelled from the spec, steps 7 and 8 (the overlap checks), with the loop of the
  package: for every left descriptor that is not nil, in order, \<open>ValidateCIDROverlap\<close>
  appends what \<open>ValidateSubset\<close> of it reports for the right descriptors when the flag
  is set, and what \<open>ValidateNotSubset\<close> of it reports for them otherwise.  The validator
  always passes false.
\<close>

definition specValidateCIDROverlap ::
  "(string \<Rightarrow> (nat \<times> IPNet) option) \<Rightarrow> CIDR option list \<Rightarrow> CIDR option list \<Rightarrow> bool \<Rightarrow>
   ErrorList" where
  "specValidateCIDROverlap P leftPaths rightPaths overlap =
     concat (map (\<lambda>l. case l of
                         None \<Rightarrow> []
                       | Some left \<Rightarrow>
                           if overlap then specValidateSubset P left rightPaths
                           else specValidateNotSubset P left rightPaths)
            leftPaths)"

text \<open>The package over the parser \<open>P\<close>.\<close>

definition specCIDR :: "(string \<Rightarrow> (nat \<times> IPNet) option) \<Rightarrow> CIDR cidrvalidation" where
  "specCIDR P =
     \<lparr>NewCIDR = specNewCIDR,
      ValidateCIDRIsCanonical = specValidateCIDRIsCanonical P,
      ValidateCIDRParse = specValidateCIDRParse P,
      ValidateParse = specValidateParse P,
      ValidateSubset = specValidateSubset P,
      ValidateNotSubset = specValidateNotSubset P,
      ValidateCIDROverlap = specValidateCIDROverlap P\<rparr>"

section \<open>The parts of the validator's result\<close>

text \<open>
  What the loop over the zones has appended to each of its three slices when it ends,
  for the zones from index \<open>i\<close> on: the field paths of a zone, the descriptors of
  \<open>cidrs\<close>, the descriptors of \<open>workerCIDRs\<close>, and the errors of the canonical-form
  checks.
\<close>

definition zonePath :: "nat \<Rightarrow> string \<Rightarrow> Path" where
  "zonePath i name = [Key ''networks'', Key ''zones'', Idx i, Key name]"

fun zoneCIDRs :: "'c cidrvalidation \<Rightarrow> nat \<Rightarrow> Zone list \<Rightarrow> 'c option list" where
  "zoneCIDRs L i [] = []"
| "zoneCIDRs L i (zone # zones) =
     [Some (NewCIDR L (Internal zone) (Some (zonePath i ''internal''))),
      Some (NewCIDR L (Public zone) (Some (zonePath i ''public''))),
      Some (NewCIDR L (Workers zone) (Some (zonePath i ''workers'')))]
     @ zoneCIDRs L (Suc i) zones"

fun zoneWorkerCIDRs :: "'c cidrvalidation \<Rightarrow> nat \<Rightarrow> Zone list \<Rightarrow> 'c option list" where
  "zoneWorkerCIDRs L i [] = []"
| "zoneWorkerCIDRs L i (zone # zones) =
     Some (NewCIDR L (Workers zone) (Some (zonePath i ''workers'')))
     # zoneWorkerCIDRs L (Suc i) zones"

fun canonicalErrs :: "'c cidrvalidation \<Rightarrow> nat \<Rightarrow> Zone list \<Rightarrow> ErrorList" where
  "canonicalErrs L i [] = []"
| "canonicalErrs L i (zone # zones) =
     ValidateCIDRIsCanonical L (Some (zonePath i ''internal'')) (Internal zone)
     @ ValidateCIDRIsCanonical L (Some (zonePath i ''public'')) (Public zone)
     @ ValidateCIDRIsCanonical L (Some (zonePath i ''workers'')) (Workers zone)
     @ canonicalErrs L (Suc i) zones"

text \<open>
  The errors of the checks on the zones, in the order the validator appends them: the
  missing zones, the canonical-form checks of the loop, the parse check of all zone
  descriptors, the node block's subset check of the worker descriptors.
\<close>

definition requiredErrs :: "InfrastructureConfig \<Rightarrow> ErrorList" where
  "requiredErrs infra =
     (if Zones (Networks infra) = []
      then [Required (Some [Key ''networks'', Key ''zones''])
              ''must specify at least the networks for one zone'']
      else [])"

definition parseErrs :: "'c cidrvalidation \<Rightarrow> InfrastructureConfig \<Rightarrow> ErrorList" where
  "parseErrs L infra = ValidateCIDRParse L (zoneCIDRs L 0 (Zones (Networks infra)))"

definition workerSubsetErrs :: "'c cidrvalidation \<Rightarrow> InfrastructureConfig \<Rightarrow> string \<Rightarrow> ErrorList" where
  "workerSubsetErrs L infra nodesCIDR =
     ValidateSubset L (NewCIDR L nodesCIDR None) (zoneWorkerCIDRs L 0 (Zones (Networks infra)))"

definition zoneErrs :: "'c cidrvalidation \<Rightarrow> InfrastructureConfig \<Rightarrow> string \<Rightarrow> ErrorList" where
  "zoneErrs L infra nodesCIDR =
     requiredErrs infra @ canonicalErrs L 0 (Zones (Networks infra)) @ parseErrs L infra
     @ workerSubsetErrs L infra nodesCIDR"

text \<open>The descriptor of the pod or service block: nil when the string is nil.\<close>

definition optCIDR :: "'c cidrvalidation \<Rightarrow> string option \<Rightarrow> 'c option" where
  "optCIDR L s = (case s of None \<Rightarrow> None | Some c \<Rightarrow> Some (NewCIDR L c None))"

text \<open>The errors of the checks on an explicit VPC CIDR \<open>c\<close>, in the order appended.\<close>

definition vpcCIDRErrs ::
  "'c cidrvalidation \<Rightarrow> InfrastructureConfig \<Rightarrow> string \<Rightarrow> string option \<Rightarrow> string option \<Rightarrow>
   string \<Rightarrow> ErrorList" where
  "vpcCIDRErrs L infra nodesCIDR podsCIDR servicesCIDR c =
     (let vpcCIDR = NewCIDR L c (Some [Key ''networks'', Key ''vpc'', Key ''cidr''])
      in ValidateCIDRIsCanonical L (Some [Key ''networks'', Key ''vpc'', Key ''cidr'']) c
         @ ValidateParse L vpcCIDR
         @ ValidateSubset L vpcCIDR [Some (NewCIDR L nodesCIDR None)]
         @ ValidateSubset L vpcCIDR (zoneCIDRs L 0 (Zones (Networks infra)))
         @ ValidateNotSubset L vpcCIDR [optCIDR L podsCIDR, optCIDR L servicesCIDR])"

text \<open>The error of a VPC descriptor with both or neither of its two members.\<close>

definition vpcDescriptorErr :: "VPC \<Rightarrow> Error" where
  "vpcDescriptorErr vpc =
     Invalid (Some [Key ''networks'', Key ''vpc'']) (VPCValue vpc)
       (Text ''must specify either a vpc id or a cidr'')"

definition vpcErrs ::
  "'c cidrvalidation \<Rightarrow> InfrastructureConfig \<Rightarrow> string \<Rightarrow> string option \<Rightarrow> string option \<Rightarrow>
   ErrorList" where
  "vpcErrs L infra nodesCIDR podsCIDR servicesCIDR =
     (case (ID (VPC (Networks infra)), CIDR (VPC (Networks infra))) of
        (None, None) \<Rightarrow> [vpcDescriptorErr (VPC (Networks infra))]
      | (Some i, Some c) \<Rightarrow> [vpcDescriptorErr (VPC (Networks infra))]
      | (Some i, None) \<Rightarrow> []
      | (None, Some c) \<Rightarrow> vpcCIDRErrs L infra nodesCIDR podsCIDR servicesCIDR c)"

text \<open>The errors of the two overlap checks that end the validator.\<close>

definition zoneOverlapErrs :: "'c cidrvalidation \<Rightarrow> InfrastructureConfig \<Rightarrow> ErrorList" where
  "zoneOverlapErrs L infra =
     ValidateCIDROverlap L (zoneCIDRs L 0 (Zones (Networks infra)))
       (zoneCIDRs L 0 (Zones (Networks infra))) False"

definition overlapErrs ::
  "'c cidrvalidation \<Rightarrow> InfrastructureConfig \<Rightarrow> string option \<Rightarrow> string option \<Rightarrow> ErrorList" where
  "overlapErrs L infra podsCIDR servicesCIDR =
     zoneOverlapErrs L infra
     @ ValidateCIDROverlap L [optCIDR L podsCIDR, optCIDR L servicesCIDR]
         (zoneCIDRs L 0 (Zones (Networks infra))) False"

text \<open>The objects the provider's validator switches on.\<close>

fun isInfrastructureOrWorker :: "'o Object option \<Rightarrow> bool" where
  "isInfrastructureOrWorker (Some (Infrastructure x)) = True"
| "isInfrastructureOrWorker (Some (Worker x)) = True"
| "isInfrastructureOrWorker obj = False"

text \<open>
  An implementation of the package whose functions report errors of type \<open>Invalid\<close>
  only.
\<close>

definition reportsInvalidOnly :: "'c cidrvalidation \<Rightarrow> bool" where
  "reportsInvalidOnly L \<longleftrightarrow>
     (\<forall>p s e. e \<in> set (ValidateCIDRIsCanonical L p s) \<longrightarrow> Type e = ErrorTypeInvalid) \<and>
     (\<forall>cs e. e \<in> set (ValidateCIDRParse L cs) \<longrightarrow> Type e = ErrorTypeInvalid) \<and>
     (\<forall>c e. e \<in> set (ValidateParse L c) \<longrightarrow> Type e = ErrorTypeInvalid) \<and>
     (\<forall>c cs e. e \<in> set (ValidateSubset L c cs) \<longrightarrow> Type e = ErrorTypeInvalid) \<and>
     (\<forall>c cs e. e \<in> set (ValidateNotSubset L c cs) \<longrightarrow> Type e = ErrorTypeInvalid) \<and>
     (\<forall>ls rs b e. e \<in> set (ValidateCIDROverlap L ls rs b) \<longrightarrow> Type e = ErrorTypeInvalid)"

section \<open>Selecting errors of a result\<close>

text \<open>The errors of a result on a given field path and with a given detail.\<close>

definition errsOf :: "Path option \<Rightarrow> Detail \<Rightarrow> ErrorList \<Rightarrow> ErrorList" where
  "errsOf p d errs = filter (\<lambda>e. Field' e = p \<and> Detail e = d) errs"


text \<open>
  The error of a pod or service block whose network address is in the VPC block \<open>c\<close>:
  on the nil path of the pod or service descriptor, with its literal, naming the VPC
  descriptor.  Then the errors expected for one optional pod or service CIDR against the
  parsed VPC block \<open>v\<close>.
\<close>

definition vpcNotSubsetErr :: "string \<Rightarrow> string \<Rightarrow> Error" where
  "vpcNotSubsetErr c other =
     Invalid None (StringValue other)
       (MustNotBeSubsetOf
          \<lparr>cidr = c, fieldPath = Some [Key ''networks'', Key ''vpc'', Key ''cidr'']\<rparr>)"

definition vpcNotSubsetErrs ::
  "(string \<Rightarrow> (nat \<times> IPNet) option) \<Rightarrow> IPNet \<Rightarrow> string \<Rightarrow> string option \<Rightarrow> ErrorList" where
  "vpcNotSubsetErrs P v c other =
     (case other of
        None \<Rightarrow> []
      | Some s \<Rightarrow>
          (case P s of
             None \<Rightarrow> []
           | Some (ip, m) \<Rightarrow> if Contains v (bits m) (IP m) then [vpcNotSubsetErr c s] else []))"

text \<open>
  The error of the zone descriptor \<open>b\<close> whose network address is in the block of the
  zone descriptor \<open>a\<close>.
\<close>

definition zoneOverlapErr :: "CIDR \<Rightarrow> CIDR \<Rightarrow> Error" where
  "zoneOverlapErr a b = Invalid (fieldPath b) (StringValue (cidr b)) (MustNotBeSubsetOf a)"

section \<open>Example inputs\<close>

text \<open>
  Generic validators.  The first has lookups that succeed, a generic validation that
  reports nothing, and a provider validator that reports the errors \<open>errs\<close>.  The second
  differs in the cluster lookup, which fails.  The third has a generic validation that
  reports one error for a Network object, on creation and on update.
\<close>

definition noValidation :: "unit extensionsvalidation" where
  "noValidation =
     \<lparr>ValidateBackupBucket = (\<lambda>x. []), ValidateBackupBucketUpdate = (\<lambda>x y. []),
      ValidateBackupEntry = (\<lambda>x. []), ValidateBackupEntryUpdate = (\<lambda>x y. []),
      ValidateControlPlane = (\<lambda>x. []), ValidateControlPlaneUpdate = (\<lambda>x y. []),
      ValidateExtension = (\<lambda>x. []), ValidateExtensionUpdate = (\<lambda>x y. []),
      ValidateInfrastructureObject = (\<lambda>x. []),
      ValidateInfrastructureObjectUpdate = (\<lambda>x y. []),
      ValidateNetwork = (\<lambda>x. []), ValidateNetworkUpdate = (\<lambda>x y. []),
      ValidateOperatingSystemConfig = (\<lambda>x. []),
      ValidateOperatingSystemConfigUpdate = (\<lambda>x y. []),
      ValidateWorkerObject = (\<lambda>x. []), ValidateWorkerObjectUpdate = (\<lambda>x y. [])\<rparr>"

definition exampleCluster :: Cluster where
  "exampleCluster =
     \<lparr>CoreShoot = Some \<lparr>Nodes = ''10.0.0.0/16'', Pods = Some ''100.64.0.0/16'',
                          Services = Some ''100.65.0.0/16''\<rparr>\<rparr>"

definition exampleGeneric :: "ErrorList \<Rightarrow> unit genericvalidator" where
  "exampleGeneric errs =
     \<lparr>Accessor = (\<lambda>obj. Inr ''shoot--foo--bar''),
      GetCluster = (\<lambda>namespace. Inr exampleCluster),
      extensionsvalidation = noValidation,
      validatorValidate = (\<lambda>cluster obj. errs),
      validatorValidateUpdate = (\<lambda>cluster oldObj newObj. errs)\<rparr>"

definition failingGeneric :: "unit genericvalidator" where
  "failingGeneric =
     \<lparr>Accessor = (\<lambda>obj. Inr ''shoot--foo--bar''),
      GetCluster = (\<lambda>namespace. Inl (Err ''not found'')),
      extensionsvalidation = noValidation,
      validatorValidate = (\<lambda>cluster obj. []),
      validatorValidateUpdate = (\<lambda>cluster oldObj newObj. [])\<rparr>"

definition networkGeneric :: "unit genericvalidator" where
  "networkGeneric =
     \<lparr>Accessor = (\<lambda>obj. Inr ''shoot--foo--bar''),
      GetCluster = (\<lambda>namespace. Inr exampleCluster),
      extensionsvalidation =
        noValidation
          \<lparr>ValidateNetwork := (\<lambda>x. [Required (Some [Key ''spec'', Key ''podCIDR'']) ''field is required'']),
           ValidateNetworkUpdate :=
             (\<lambda>x y. [Invalid (Some [Key ''spec'', Key ''type'']) (StringValue ''calico'')
                        (Text ''field is immutable'')])\<rparr>,
      validatorValidate = (\<lambda>cluster obj. []),
      validatorValidateUpdate = (\<lambda>cluster oldObj newObj. [])\<rparr>"

text \<open>
  The configuration of the spec's end-to-end scenario: one zone, and an explicit VPC
  CIDR.
\<close>

definition scenarioConfig :: InfrastructureConfig where
  "scenarioConfig =
     \<lparr>Networks =
        \<lparr>VPC = \<lparr>ID = None, CIDR = Some ''10.0.0.0/16''\<rparr>,
         Zones = [\<lparr>Internal = ''10.0.0.0/24'', Public = ''10.0.1.0/24'',
                   Workers = ''10.0.2.0/24''\<rparr>]\<rparr>\<rparr>"

text \<open>
  A provider validator over the package with the parser of IPv4 literals, with a decoder
  that knows one payload.
\<close>

definition exampleValidator :: "(CIDR, unit) validator" where
  "exampleValidator =
     \<lparr>cidrPackage = specCIDR ParseCIDR,
      DecodeInfrastructureConfig =
        (\<lambda>raw. if raw = ''scenario'' then Inr scenarioConfig else Inl ''unknown payload''),
      DecodeWorkerConfig = (\<lambda>raw. Inr ()),
      ValidateWorkerConfig = (\<lambda>workerConfig volumeType. [])\<rparr>"

text \<open>
  Two zones: the first has an internal CIDR that does not parse, the second an internal
  CIDR that is not in canonical form; the VPC is given by its identifier.
\<close>

definition malformedConfig :: InfrastructureConfig where
  "malformedConfig =
     \<lparr>Networks =
        \<lparr>VPC = \<lparr>ID = Some ''vpc-1'', CIDR = None\<rparr>,
         Zones = [\<lparr>Internal = ''bad'', Public = ''10.0.1.0/24'', Workers = ''10.0.2.0/24''\<rparr>,
                  \<lparr>Internal = ''10.0.3.1/24'', Public = ''10.0.4.0/24'',
                   Workers = ''10.0.5.0/24''\<rparr>]\<rparr>\<rparr>"

text \<open>The scenario's configuration with both members of the VPC descriptor set.\<close>

definition bothConfig :: InfrastructureConfig where
  "bothConfig =
     \<lparr>Networks =
        \<lparr>VPC = \<lparr>ID = Some ''vpc-1'', CIDR = Some ''10.0.0.0/16''\<rparr>,
         Zones = [\<lparr>Internal = ''10.0.0.0/24'', Public = ''10.0.1.0/24'',
                   Workers = ''10.0.2.0/24''\<rparr>]\<rparr>\<rparr>"



text \<open>
  The VPC block \<open>10.1.0.0/16\<close> with one zone inside it; it is validated against the pod
  block \<open>10.0.0.0/8\<close>, which contains the VPC block.
\<close>

definition vpcInsidePodsConfig :: InfrastructureConfig where
  "vpcInsidePodsConfig =
     \<lparr>Networks =
        \<lparr>VPC = \<lparr>ID = None, CIDR = Some ''10.1.0.0/16''\<rparr>,
         Zones = [\<lparr>Internal = ''10.1.0.0/24'', Public = ''10.1.1.0/24'',
                   Workers = ''10.1.2.0/24''\<rparr>]\<rparr>\<rparr>"


section \<open>Properties\<close>

subsection \<open>The result of the validator, part by part\<close>

lemma zonePath_eq:
  "Child (Index (Child (NewPath ''networks'') [''zones'']) i) [name] = zonePath i name"
  by (simp add: Child_def Index_def NewPath_def zonePath_def)

lemma zonesLoop_eq:
  "zonesLoop L (NewPath ''networks'') i zones (allErrs, cidrs, workerCIDRs) =
     (allErrs @ canonicalErrs L i zones, cidrs @ zoneCIDRs L i zones,
      workerCIDRs @ zoneWorkerCIDRs L i zones)"
proof (induction zones arbitrary: i allErrs cidrs workerCIDRs)
  case Nil
  show ?case by simp
next
  case (Cons zone zones)
  show ?case
    by (simp add: Cons.IH zonePath_eq Let_def)
qed

lemma ValidateInfrastructureConfig_parts:
  "ValidateInfrastructureConfig L infra nodesCIDR podsCIDR servicesCIDR =
     zoneErrs L infra nodesCIDR
     @ vpcErrs L infra nodesCIDR podsCIDR servicesCIDR
     @ overlapErrs L infra podsCIDR servicesCIDR"
proof -
  have paths: "Child (NewPath ''networks'') [''zones''] = [Key ''networks'', Key ''zones'']"
    "Child (NewPath ''networks'') [''vpc''] = [Key ''networks'', Key ''vpc'']"
    "Child (NewPath ''networks'') [''vpc'', ''cidr''] = [Key ''networks'', Key ''vpc'', Key ''cidr'']"
    by (simp_all add: Child_def NewPath_def)
  show ?thesis
  proof (cases "ID (VPC (Networks infra))")
    case None
    show ?thesis
      by (cases "CIDR (VPC (Networks infra))")
         (simp_all add: ValidateInfrastructureConfig_def zonesLoop_eq paths None Let_def
            zoneErrs_def requiredErrs_def parseErrs_def workerSubsetErrs_def vpcErrs_def
            vpcCIDRErrs_def vpcDescriptorErr_def overlapErrs_def zoneOverlapErrs_def optCIDR_def)
  next
    case (Some i)
    show ?thesis
      by (cases "CIDR (VPC (Networks infra))")
         (simp_all add: ValidateInfrastructureConfig_def zonesLoop_eq paths Some Let_def
            zoneErrs_def requiredErrs_def parseErrs_def workerSubsetErrs_def vpcErrs_def
            vpcDescriptorErr_def overlapErrs_def zoneOverlapErrs_def optCIDR_def)
  qed
qed

subsection \<open>The provider's validator on other objects\<close>

text \<open>
  Claim C9.  For every object that is neither an Infrastructure nor a Worker (the nil
  object included), \<open>Validate\<close> and \<open>ValidateUpdate\<close> of the provider's validator
  return, without a panic, the empty error list; for \<open>ValidateUpdate\<close> the object is
  the new one, whatever the old one is.
\<close>

theorem provider_validator_admits_other_objects:
  assumes "\<not> isInfrastructureOrWorker obj"
  shows "Validate v cluster obj = Inr [] \<and> ValidateUpdate v cluster oldObj obj = Inr []"
proof (cases obj)
  case None
  then show ?thesis by (simp add: Validate_def ValidateUpdate_def)
next
  case (Some x)
  with assms show ?thesis
    by (cases x) (simp_all add: Validate_def ValidateUpdate_def)
qed

theorem provider_validator_admits_other_objects_witness:
  "\<not> isInfrastructureOrWorker (Some (Network ())) \<and>
   Validate exampleValidator exampleCluster (Some (Network ())) = Inr [] \<and>
   ValidateUpdate exampleValidator exampleCluster
     (Some (Infrastructure \<lparr>ProviderConfig = None\<rparr>)) (Some (Network ())) = Inr []"
proof -
  have h: "\<not> isInfrastructureOrWorker (Some (Network ()))" by simp
  show ?thesis
    using h provider_validator_admits_other_objects [OF h, of exampleValidator exampleCluster
        "Some (Infrastructure \<lparr>ProviderConfig = None\<rparr>)"]
    by blast
qed

subsection \<open>The result of the generic validator\<close>

text \<open>
  Claim C10, amended.  The generic validator returns the nil error if and only if the
  accessor and the cluster lookup succeed and neither the generic validation of the
  extension object nor the provider's validator (\<open>Validate\<close> when there is no old
  object, \<open>ValidateUpdate\<close> otherwise) reports an error.  When both lookups succeed and
  the combined list, the generic validation's errors followed by the provider
  validator's, is not empty, it returns the one error that carries that whole list.
  When the accessor fails, or the cluster lookup fails, it returns that error, wrapped,
  whatever a validation would report.  The generic validation's errors are those of the
  function of \<open>extensionsvalidation\<close> for the type of the new object: the creation
  function when there is no old object, the update function on the new and the old
  object when the old object has the type of the new one; there are none when the new
  object is nil or of no extension type, and none when the old object is of another type
  than the new one.
\<close>

theorem generic_validate_result:
  "(genericValidate v oldObj newObj = None \<longleftrightarrow>
      (\<exists>namespace cluster.
         Accessor v newObj = Inr namespace \<and> GetCluster v namespace = Inr cluster \<and>
         extensionErrs (extensionsvalidation v) oldObj newObj = [] \<and>
         (if oldObj = None then validatorValidate v cluster newObj
          else validatorValidateUpdate v cluster oldObj newObj) = [])) \<and>
   (\<forall>namespace cluster.
      Accessor v newObj = Inr namespace \<and> GetCluster v namespace = Inr cluster \<and>
      extensionErrs (extensionsvalidation v) oldObj newObj
        @ (if oldObj = None then validatorValidate v cluster newObj
           else validatorValidateUpdate v cluster oldObj newObj) \<noteq> [] \<longrightarrow>
      genericValidate v oldObj newObj =
        Some (Errorf (extensionErrs (extensionsvalidation v) oldObj newObj
                @ (if oldObj = None then validatorValidate v cluster newObj
                   else validatorValidateUpdate v cluster oldObj newObj)))) \<and>
   (\<forall>err. Accessor v newObj = Inl err \<longrightarrow>
      genericValidate v oldObj newObj =
        Some (Wrapf err ''could not create accessor during webhook'')) \<and>
   (\<forall>namespace err. Accessor v newObj = Inr namespace \<and> GetCluster v namespace = Inl err \<longrightarrow>
      genericValidate v oldObj newObj =
        Some (Wrapf err (''could not get cluster for namespace '' @ [CHR 0x27] @ namespace
                @ [CHR 0x27]))) \<and>
   extensionErrs E None (Some (BackupBucket x)) = ValidateBackupBucket E x \<and>
   extensionErrs E (Some (BackupBucket y)) (Some (BackupBucket x)) =
     ValidateBackupBucketUpdate E x y \<and>
   extensionErrs E None (Some (BackupEntry x)) = ValidateBackupEntry E x \<and>
   extensionErrs E (Some (BackupEntry y)) (Some (BackupEntry x)) =
     ValidateBackupEntryUpdate E x y \<and>
   extensionErrs E None (Some (ControlPlane x)) = ValidateControlPlane E x \<and>
   extensionErrs E (Some (ControlPlane y)) (Some (ControlPlane x)) =
     ValidateControlPlaneUpdate E x y \<and>
   extensionErrs E None (Some (Extension x)) = ValidateExtension E x \<and>
   extensionErrs E (Some (Extension y)) (Some (Extension x)) = ValidateExtensionUpdate E x y \<and>
   extensionErrs E None (Some (Infrastructure i)) = ValidateInfrastructureObject E i \<and>
   extensionErrs E (Some (Infrastructure j)) (Some (Infrastructure i)) =
     ValidateInfrastructureObjectUpdate E i j \<and>
   extensionErrs E None (Some (Network x)) = ValidateNetwork E x \<and>
   extensionErrs E (Some (Network y)) (Some (Network x)) = ValidateNetworkUpdate E x y \<and>
   extensionErrs E None (Some (OperatingSystemConfig x)) = ValidateOperatingSystemConfig E x \<and>
   extensionErrs E (Some (OperatingSystemConfig y)) (Some (OperatingSystemConfig x)) =
     ValidateOperatingSystemConfigUpdate E x y \<and>
   extensionErrs E None (Some (Worker w)) = ValidateWorkerObject E w \<and>
   extensionErrs E (Some (Worker w')) (Some (Worker w)) = ValidateWorkerObjectUpdate E w w' \<and>
   extensionErrs E obj None = [] \<and>
   extensionErrs E obj (Some (Other x)) = [] \<and>
   (obj \<noteq> None \<and> (\<forall>z. obj \<noteq> Some (BackupBucket z)) \<longrightarrow>
      extensionErrs E obj (Some (BackupBucket x)) = []) \<and>
   (obj \<noteq> None \<and> (\<forall>z. obj \<noteq> Some (BackupEntry z)) \<longrightarrow>
      extensionErrs E obj (Some (BackupEntry x)) = []) \<and>
   (obj \<noteq> None \<and> (\<forall>z. obj \<noteq> Some (ControlPlane z)) \<longrightarrow>
      extensionErrs E obj (Some (ControlPlane x)) = []) \<and>
   (obj \<noteq> None \<and> (\<forall>z. obj \<noteq> Some (Extension z)) \<longrightarrow>
      extensionErrs E obj (Some (Extension x)) = []) \<and>
   (obj \<noteq> None \<and> (\<forall>z. obj \<noteq> Some (Infrastructure z)) \<longrightarrow>
      extensionErrs E obj (Some (Infrastructure i)) = []) \<and>
   (obj \<noteq> None \<and> (\<forall>z. obj \<noteq> Some (Network z)) \<longrightarrow>
      extensionErrs E obj (Some (Network x)) = []) \<and>
   (obj \<noteq> None \<and> (\<forall>z. obj \<noteq> Some (OperatingSystemConfig z)) \<longrightarrow>
      extensionErrs E obj (Some (OperatingSystemConfig x)) = []) \<and>
   (obj \<noteq> None \<and> (\<forall>z. obj \<noteq> Some (Worker z)) \<longrightarrow>
      extensionErrs E obj (Some (Worker w)) = [])"
proof -
  have result: "genericValidate v oldObj newObj =
      (case Accessor v newObj of
         Inl err \<Rightarrow> Some (Wrapf err ''could not create accessor during webhook'')
       | Inr namespace \<Rightarrow>
           (case GetCluster v namespace of
              Inl err \<Rightarrow>
                Some (Wrapf err (''could not get cluster for namespace '' @ [CHR 0x27]
                        @ namespace @ [CHR 0x27]))
            | Inr cluster \<Rightarrow>
                if extensionErrs (extensionsvalidation v) oldObj newObj
                     @ (if oldObj = None then validatorValidate v cluster newObj
                        else validatorValidateUpdate v cluster oldObj newObj) = []
                then None
                else Some (Errorf (extensionErrs (extensionsvalidation v) oldObj newObj
                       @ (if oldObj = None then validatorValidate v cluster newObj
                          else validatorValidateUpdate v cluster oldObj newObj)))))"
  proof (cases "Accessor v newObj")
    case (Inl err)
    then show ?thesis by (simp add: genericValidate_def)
  next
    case (Inr namespace)
    then show ?thesis
      by (cases "GetCluster v namespace"; cases oldObj)
         (simp_all add: genericValidate_def combinedErrs_def Let_def)
  qed
  have admit: "genericValidate v oldObj newObj = None \<longleftrightarrow>
      (\<exists>namespace cluster.
         Accessor v newObj = Inr namespace \<and> GetCluster v namespace = Inr cluster \<and>
         extensionErrs (extensionsvalidation v) oldObj newObj = [] \<and>
         (if oldObj = None then validatorValidate v cluster newObj
          else validatorValidateUpdate v cluster oldObj newObj) = [])"
  proof (cases "Accessor v newObj")
    case (Inl err)
    then show ?thesis by (simp add: result)
  next
    case (Inr namespace)
    then show ?thesis
      by (cases "GetCluster v namespace") (simp_all add: result)
  qed
  have reject: "\<forall>namespace cluster.
      Accessor v newObj = Inr namespace \<and> GetCluster v namespace = Inr cluster \<and>
      extensionErrs (extensionsvalidation v) oldObj newObj
        @ (if oldObj = None then validatorValidate v cluster newObj
           else validatorValidateUpdate v cluster oldObj newObj) \<noteq> [] \<longrightarrow>
      genericValidate v oldObj newObj =
        Some (Errorf (extensionErrs (extensionsvalidation v) oldObj newObj
                @ (if oldObj = None then validatorValidate v cluster newObj
                   else validatorValidateUpdate v cluster oldObj newObj)))"
    by (simp add: result)
  have accessor: "\<forall>err. Accessor v newObj = Inl err \<longrightarrow>
      genericValidate v oldObj newObj =
        Some (Wrapf err ''could not create accessor during webhook'')"
    by (simp add: result)
  have lookup: "\<forall>namespace err.
      Accessor v newObj = Inr namespace \<and> GetCluster v namespace = Inl err \<longrightarrow>
      genericValidate v oldObj newObj =
        Some (Wrapf err (''could not get cluster for namespace '' @ [CHR 0x27] @ namespace
                @ [CHR 0x27]))"
    by (simp add: result)
  show ?thesis
    apply (intro conjI)
    apply (rule admit)
    apply (rule reject)
    apply (rule accessor)
    apply (rule lookup)
    apply (simp_all add: extensionErrs_def)
    apply (auto split: option.splits Object.splits)
    done
qed

theorem generic_validate_result_witness:
  "Accessor networkGeneric (Some (Network ())) = Inr ''shoot--foo--bar'' \<and>
   GetCluster networkGeneric ''shoot--foo--bar'' = Inr exampleCluster \<and>
   genericValidate networkGeneric None (Some (Network ())) =
     Some (Errorf [Required (Some [Key ''spec'', Key ''podCIDR'']) ''field is required'']) \<and>
   genericValidate networkGeneric (Some (Network ())) (Some (Network ())) =
     Some (Errorf [Invalid (Some [Key ''spec'', Key ''type'']) (StringValue ''calico'')
                     (Text ''field is immutable'')]) \<and>
   genericValidate networkGeneric (Some (Extension ())) (Some (Network ())) = None \<and>
   Accessor failingGeneric (Some (Other ())) = Inr ''shoot--foo--bar'' \<and>
   GetCluster failingGeneric ''shoot--foo--bar'' = Inl (Err ''not found'') \<and>
   genericValidate failingGeneric None (Some (Other ())) =
     Some (Wrapf (Err ''not found'')
             (''could not get cluster for namespace '' @ [CHR 0x27] @ ''shoot--foo--bar''
              @ [CHR 0x27]))"
proof -
  have a: "Accessor networkGeneric obj = Inr ''shoot--foo--bar''" for obj
    by (simp add: networkGeneric_def)
  have g: "GetCluster networkGeneric ''shoot--foo--bar'' = Inr exampleCluster"
    by (simp add: networkGeneric_def)
  have p: "validatorValidate networkGeneric cluster obj = []"
    "validatorValidateUpdate networkGeneric cluster obj' obj = []" for cluster obj obj'
    by (simp_all add: networkGeneric_def)
  have e: "ValidateNetwork (extensionsvalidation networkGeneric) () =
      [Required (Some [Key ''spec'', Key ''podCIDR'']) ''field is required'']"
    "ValidateNetworkUpdate (extensionsvalidation networkGeneric) () () =
      [Invalid (Some [Key ''spec'', Key ''type'']) (StringValue ''calico'')
         (Text ''field is immutable'')]"
    by (simp_all add: networkGeneric_def noValidation_def)
  have fa: "Accessor failingGeneric (Some (Other ())) = Inr ''shoot--foo--bar''"
    by (simp add: failingGeneric_def)
  have fg: "GetCluster failingGeneric ''shoot--foo--bar'' = Inl (Err ''not found'')"
    by (simp add: failingGeneric_def)
  let ?i = "\<lparr>ProviderConfig = None\<rparr>" and ?w = "\<lparr>Pools = []\<rparr>"
  note create = generic_validate_result [of networkGeneric None "Some (Network ())"
      "extensionsvalidation networkGeneric" "()" "()" ?i ?i ?w ?w "Some (Extension ())"]
  note update = generic_validate_result [of networkGeneric "Some (Network ())"
      "Some (Network ())" "extensionsvalidation networkGeneric" "()" "()" ?i ?i ?w ?w
      "Some (Extension ())"]
  note mismatch = generic_validate_result [of networkGeneric "Some (Extension ())"
      "Some (Network ())" "extensionsvalidation networkGeneric" "()" "()" ?i ?i ?w ?w
      "Some (Extension ())"]
  note failing = generic_validate_result [of failingGeneric None "Some (Other ())"
      "extensionsvalidation networkGeneric" "()" "()" ?i ?i ?w ?w "Some (Extension ())"]
  have 1: "genericValidate networkGeneric None (Some (Network ())) =
      Some (Errorf [Required (Some [Key ''spec'', Key ''podCIDR'']) ''field is required''])"
    using create a g p e by simp
  have 2: "genericValidate networkGeneric (Some (Network ())) (Some (Network ())) =
      Some (Errorf [Invalid (Some [Key ''spec'', Key ''type'']) (StringValue ''calico'')
                      (Text ''field is immutable'')])"
    using update a g p e by simp
  have 3: "genericValidate networkGeneric (Some (Extension ())) (Some (Network ())) = None"
    using mismatch a g p by simp
  have 4: "genericValidate failingGeneric None (Some (Other ())) =
      Some (Wrapf (Err ''not found'')
              (''could not get cluster for namespace '' @ [CHR 0x27] @ ''shoot--foo--bar''
               @ [CHR 0x27]))"
    using failing fa fg by simp
  from a g 1 2 3 fa fg 4 show ?thesis by simp
qed

text \<open>
  Claim C10 as stated fails for a request whose cluster lookup fails: no validation
  reports an error, whatever the cluster, so the combined list is empty, and yet the
  generic validator returns an error.
\<close>

theorem lookup_failure_counterexample:
  "(\<forall>cluster. combinedErrs failingGeneric cluster None (Some (Other ())) = []) \<and>
   genericValidate failingGeneric None (Some (Other ())) =
     Some (Wrapf (Err ''not found'')
             (''could not get cluster for namespace '' @ [CHR 0x27] @ ''shoot--foo--bar''
              @ [CHR 0x27]))"
  by (simp add: combinedErrs_def extensionErrs_def genericValidate_def failingGeneric_def)

subsection \<open>The types of the errors of a result\<close>

lemma Type_Invalid [simp]: "Type (Invalid p v d) = ErrorTypeInvalid"
  by (simp add: Invalid_def)

lemma Type_Required [simp]: "Type (Required p d) = ErrorTypeRequired"
  by (simp add: Required_def)

lemma Type_InternalError [simp]: "Type (InternalError p d) = ErrorTypeInternal"
  by (simp add: InternalError_def)

lemma canonicalErrs_Type:
  assumes "reportsInvalidOnly L" and "e \<in> set (canonicalErrs L i zones)"
  shows "Type e = ErrorTypeInvalid"
  using assms by (induction zones arbitrary: i) (auto simp: reportsInvalidOnly_def)

lemma zoneErrs_Type:
  assumes "reportsInvalidOnly L" and "e \<in> set (zoneErrs L infra nodesCIDR)"
  shows "Type e = ErrorTypeRequired \<or> Type e = ErrorTypeInvalid"
proof -
  from assms(2) consider "e \<in> set (requiredErrs infra)"
    | "e \<in> set (canonicalErrs L 0 (Zones (Networks infra)))"
    | "e \<in> set (parseErrs L infra)" | "e \<in> set (workerSubsetErrs L infra nodesCIDR)"
    by (auto simp: zoneErrs_def)
  then show ?thesis
  proof cases
    case 1
    then show ?thesis by (simp add: requiredErrs_def split: if_splits)
  next
    case 2
    then show ?thesis using assms(1) canonicalErrs_Type by blast
  next
    case 3
    then show ?thesis using assms(1) by (simp add: parseErrs_def reportsInvalidOnly_def)
  next
    case 4
    then show ?thesis using assms(1) by (simp add: workerSubsetErrs_def reportsInvalidOnly_def)
  qed
qed

lemma vpcErrs_Type:
  assumes "reportsInvalidOnly L" and "e \<in> set (vpcErrs L infra nodesCIDR podsCIDR servicesCIDR)"
  shows "Type e = ErrorTypeInvalid"
  using assms
  by (auto simp: vpcErrs_def vpcCIDRErrs_def vpcDescriptorErr_def reportsInvalidOnly_def Let_def
      split: option.splits)

lemma overlapErrs_Type:
  assumes "reportsInvalidOnly L" and "e \<in> set (overlapErrs L infra podsCIDR servicesCIDR)"
  shows "Type e = ErrorTypeInvalid"
  using assms
  by (auto simp: overlapErrs_def zoneOverlapErrs_def reportsInvalidOnly_def)

lemma ValidateInfrastructureConfig_Type:
  assumes "reportsInvalidOnly L"
    and "e \<in> set (ValidateInfrastructureConfig L infra nodesCIDR podsCIDR servicesCIDR)"
  shows "Type e = ErrorTypeRequired \<or> Type e = ErrorTypeInvalid"
  using assms zoneErrs_Type vpcErrs_Type overlapErrs_Type
  by (fastforce simp: ValidateInfrastructureConfig_parts)

lemma ValidateInfrastructureConfigUpdate_Type:
  assumes "reportsInvalidOnly L"
    and "e \<in> set (ValidateInfrastructureConfigUpdate L old new nodesCIDR podsCIDR servicesCIDR)"
  shows "Type e = ErrorTypeRequired \<or> Type e = ErrorTypeInvalid"
  using assms ValidateInfrastructureConfig_Type [of L e new nodesCIDR podsCIDR servicesCIDR]
  by (auto simp: ValidateInfrastructureConfigUpdate_def ValidateImmutableField_def Let_def
      split: if_splits)



subsection \<open>The package reports \<open>Invalid\<close> errors only\<close>





subsection \<open>The literals of the examples\<close>

lemmas parse_simps = ParseCIDR_def parseIPv4_def dtoi_def isDigit_def

lemma parse_10_0_0_0_24: "ParseCIDR ''10.0.0.0/24'' = Some (167772160, \<lparr>IP = 167772160, ones = 24, bits = 32\<rparr>)"
  by (simp add: parse_simps)
lemma parse_10_0_1_0_24: "ParseCIDR ''10.0.1.0/24'' = Some (167772416, \<lparr>IP = 167772416, ones = 24, bits = 32\<rparr>)"
  by (simp add: parse_simps)
lemma parse_10_0_2_0_24: "ParseCIDR ''10.0.2.0/24'' = Some (167772672, \<lparr>IP = 167772672, ones = 24, bits = 32\<rparr>)"
  by (simp add: parse_simps)
lemma parse_10_0_3_1_24: "ParseCIDR ''10.0.3.1/24'' = Some (167772929, \<lparr>IP = 167772928, ones = 24, bits = 32\<rparr>)"
  by (simp add: parse_simps)
lemma parse_10_0_4_0_24: "ParseCIDR ''10.0.4.0/24'' = Some (167773184, \<lparr>IP = 167773184, ones = 24, bits = 32\<rparr>)"
  by (simp add: parse_simps)
lemma parse_10_0_5_0_24: "ParseCIDR ''10.0.5.0/24'' = Some (167773440, \<lparr>IP = 167773440, ones = 24, bits = 32\<rparr>)"
  by (simp add: parse_simps)
lemma parse_bad: "ParseCIDR ''bad'' = None"
  by (simp add: parse_simps)
lemma parse_10_0_0_0_8: "ParseCIDR ''10.0.0.0/8'' = Some (167772160, \<lparr>IP = 167772160, ones = 8, bits = 32\<rparr>)"
  by (simp add: parse_simps)
lemma parse_10_0_0_0_16: "ParseCIDR ''10.0.0.0/16'' = Some (167772160, \<lparr>IP = 167772160, ones = 16, bits = 32\<rparr>)"
  by (simp add: parse_simps)
lemma parse_100_64_0_0_16: "ParseCIDR ''100.64.0.0/16'' = Some (1681915904, \<lparr>IP = 1681915904, ones = 16, bits = 32\<rparr>)"
  by (simp add: parse_simps)
lemma parse_100_65_0_0_16: "ParseCIDR ''100.65.0.0/16'' = Some (1681981440, \<lparr>IP = 1681981440, ones = 16, bits = 32\<rparr>)"
  by (simp add: parse_simps)


lemma parse_10_1_0_0_24: "ParseCIDR ''10.1.0.0/24'' = Some (167837696, \<lparr>IP = 167837696, ones = 24, bits = 32\<rparr>)"
  by (simp add: parse_simps)
lemma parse_10_1_1_0_24: "ParseCIDR ''10.1.1.0/24'' = Some (167837952, \<lparr>IP = 167837952, ones = 24, bits = 32\<rparr>)"
  by (simp add: parse_simps)
lemma parse_10_1_2_0_24: "ParseCIDR ''10.1.2.0/24'' = Some (167838208, \<lparr>IP = 167838208, ones = 24, bits = 32\<rparr>)"
  by (simp add: parse_simps)
lemma parse_10_1_0_0_16: "ParseCIDR ''10.1.0.0/16'' = Some (167837696, \<lparr>IP = 167837696, ones = 16, bits = 32\<rparr>)"
  by (simp add: parse_simps)
lemma parse_11_0_0_0_24: "ParseCIDR ''11.0.0.0/24'' = Some (184549376, \<lparr>IP = 184549376, ones = 24, bits = 32\<rparr>)"
  by (simp add: parse_simps)
lemma parse_11_0_1_0_24: "ParseCIDR ''11.0.1.0/24'' = Some (184549632, \<lparr>IP = 184549632, ones = 24, bits = 32\<rparr>)"
  by (simp add: parse_simps)

lemmas literal_parses = parse_10_0_0_0_24 parse_10_0_1_0_24 parse_10_0_2_0_24 parse_10_0_0_0_8
  parse_10_0_0_0_16 parse_100_64_0_0_16 parse_100_65_0_0_16 parse_10_0_3_1_24 parse_10_0_4_0_24
  parse_10_0_5_0_24 parse_bad parse_10_1_0_0_24 parse_10_1_1_0_24 parse_10_1_2_0_24
  parse_10_1_0_0_16 parse_11_0_0_0_24 parse_11_0_1_0_24

lemmas spec_simps = specCIDR_def specNewCIDR_def specValidateCIDRIsCanonical_def
  specValidateParse_def specValidateCIDRParse_def specValidateSubset_def
  specValidateNotSubset_def specValidateCIDROverlap_def GetIPNet_def Contains_def blockSize_def

lemmas parts_simps = zoneErrs_def requiredErrs_def
  parseErrs_def workerSubsetErrs_def vpcErrs_def vpcCIDRErrs_def vpcDescriptorErr_def
  overlapErrs_def zoneOverlapErrs_def optCIDR_def zonePath_def

lemma scenario_16:
  "ValidateInfrastructureConfig (specCIDR ParseCIDR) scenarioConfig ''10.0.0.0/16''
     (Some ''100.64.0.0/16'') (Some ''100.65.0.0/16'') = []"
  by (simp add: ValidateInfrastructureConfig_parts parts_simps scenarioConfig_def spec_simps
      literal_parses)

subsection \<open>The order of the errors\<close>

text \<open>
  Claim C7, amended.  The returned list is in the order of the checks: the error for
  missing zones; the canonical-form errors of all zones, in zone index order and
  internal, public, workers within a zone; the parse errors of all zone descriptors in
  the same order; the errors of the node block's subset check on the worker descriptors
  in zone index order; then the errors on the VPC descriptor or on the VPC CIDR; then
  the errors of the overlap check among the zone descriptors and of the overlap check of
  the pod and service blocks against them.  The errors of the zones are grouped by
  check, not by zone.
\<close>

theorem errors_ordered_by_check:
  "ValidateInfrastructureConfig L infra nodesCIDR podsCIDR servicesCIDR =
     (requiredErrs infra
      @ canonicalErrs L 0 (Zones (Networks infra))
      @ ValidateCIDRParse L (zoneCIDRs L 0 (Zones (Networks infra)))
      @ ValidateSubset L (NewCIDR L nodesCIDR None) (zoneWorkerCIDRs L 0 (Zones (Networks infra))))
     @ vpcErrs L infra nodesCIDR podsCIDR servicesCIDR
     @ (ValidateCIDROverlap L (zoneCIDRs L 0 (Zones (Networks infra)))
          (zoneCIDRs L 0 (Zones (Networks infra))) False
        @ ValidateCIDROverlap L [optCIDR L podsCIDR, optCIDR L servicesCIDR]
            (zoneCIDRs L 0 (Zones (Networks infra))) False)"
  by (simp add: ValidateInfrastructureConfig_parts zoneErrs_def parseErrs_def
      workerSubsetErrs_def overlapErrs_def zoneOverlapErrs_def)

text \<open>
  Claim C7 as stated fails: with an internal CIDR that does not parse in zone 0 and an
  internal CIDR that is not canonical in zone 1, the error of zone 1 comes before the
  error of zone 0.
\<close>

theorem zone_index_order_counterexample:
  "ValidateInfrastructureConfig (specCIDR ParseCIDR) malformedConfig ''10.0.0.0/16'' None None =
     [Invalid (Some [Key ''networks'', Key ''zones'', Idx 1, Key ''internal''])
        (StringValue ''10.0.3.1/24'') NotCanonical,
      Invalid (Some [Key ''networks'', Key ''zones'', Idx 0, Key ''internal''])
        (StringValue ''bad'') NotParseable]"
  by (simp add: ValidateInfrastructureConfig_parts parts_simps malformedConfig_def spec_simps
      literal_parses)

subsection \<open>The VPC descriptor\<close>

text \<open>
  Claim C6.  When the VPC descriptor has both the identifier and the CIDR, or neither,
  the validator appends, between the errors of the zone checks and those of the overlap
  checks, exactly one error: the \<open>Invalid\<close> error on the path \<open>networks.vpc\<close>.
  When only the identifier is set it appends nothing there; when only the CIDR is set
  it appends there the results of the checks on the VPC CIDR and no error of its own.
\<close>

theorem vpc_descriptor_error:
  "(ID (VPC (Networks infra)) = None \<and> CIDR (VPC (Networks infra)) = None \<or>
    ID (VPC (Networks infra)) \<noteq> None \<and> CIDR (VPC (Networks infra)) \<noteq> None \<longrightarrow>
      ValidateInfrastructureConfig L infra nodesCIDR podsCIDR servicesCIDR =
        zoneErrs L infra nodesCIDR
        @ [Invalid (Some [Key ''networks'', Key ''vpc'']) (VPCValue (VPC (Networks infra)))
             (Text ''must specify either a vpc id or a cidr'')]
        @ overlapErrs L infra podsCIDR servicesCIDR) \<and>
   (ID (VPC (Networks infra)) \<noteq> None \<and> CIDR (VPC (Networks infra)) = None \<longrightarrow>
      ValidateInfrastructureConfig L infra nodesCIDR podsCIDR servicesCIDR =
        zoneErrs L infra nodesCIDR @ overlapErrs L infra podsCIDR servicesCIDR) \<and>
   (\<forall>c. ID (VPC (Networks infra)) = None \<and> CIDR (VPC (Networks infra)) = Some c \<longrightarrow>
      ValidateInfrastructureConfig L infra nodesCIDR podsCIDR servicesCIDR =
        zoneErrs L infra nodesCIDR
        @ vpcCIDRErrs L infra nodesCIDR podsCIDR servicesCIDR c
        @ overlapErrs L infra podsCIDR servicesCIDR)"
  by (auto simp: ValidateInfrastructureConfig_parts vpcErrs_def vpcDescriptorErr_def
      split: option.splits)

theorem vpc_descriptor_error_witness:
  "ID (VPC (Networks bothConfig)) \<noteq> None \<and> CIDR (VPC (Networks bothConfig)) \<noteq> None \<and>
   ValidateInfrastructureConfig (specCIDR ParseCIDR) bothConfig ''10.0.0.0/16''
     (Some ''100.64.0.0/16'') (Some ''100.65.0.0/16'') =
     [Invalid (Some [Key ''networks'', Key ''vpc''])
        (VPCValue \<lparr>ID = Some ''vpc-1'', CIDR = Some ''10.0.0.0/16''\<rparr>)
        (Text ''must specify either a vpc id or a cidr'')]"
proof -
  have h: "ID (VPC (Networks bothConfig)) \<noteq> None \<and> CIDR (VPC (Networks bothConfig)) \<noteq> None"
    by (simp add: bothConfig_def)
  have z: "zoneErrs (specCIDR ParseCIDR) bothConfig ''10.0.0.0/16'' = []"
    by (simp add: parts_simps bothConfig_def spec_simps literal_parses)
  have ov: "overlapErrs (specCIDR ParseCIDR) bothConfig (Some ''100.64.0.0/16'')
      (Some ''100.65.0.0/16'') = []"
    by (simp add: parts_simps bothConfig_def spec_simps literal_parses)
  have v: "VPC (Networks bothConfig) = \<lparr>ID = Some ''vpc-1'', CIDR = Some ''10.0.0.0/16''\<rparr>"
    by (simp add: bothConfig_def)
  show ?thesis
    using h z ov v vpc_descriptor_error [of bothConfig "specCIDR ParseCIDR" "''10.0.0.0/16''"
        "Some ''100.64.0.0/16''" "Some ''100.65.0.0/16''"]
    by simp
qed

subsection \<open>Updates\<close>

text \<open>
  Claim C4.  The result of the update validation is the result of the immutability
  check of the networks followed by the whole result of \<open>ValidateInfrastructureConfig\<close>
  on the new configuration; when the networks of the old and the new configuration
  differ, its first element is the \<open>Invalid\<close> immutability error on the path
  \<open>networks\<close>, whatever the validation of the new configuration yields.
\<close>

theorem update_rejects_changed_networks:
  "ValidateInfrastructureConfigUpdate L oldConfig newConfig nodesCIDR podsCIDR servicesCIDR =
     ValidateImmutableField (NetworksValue (Networks newConfig))
       (NetworksValue (Networks oldConfig)) (Some [Key ''networks''])
     @ ValidateInfrastructureConfig L newConfig nodesCIDR podsCIDR servicesCIDR \<and>
   (Networks oldConfig \<noteq> Networks newConfig \<longrightarrow>
      ValidateInfrastructureConfigUpdate L oldConfig newConfig nodesCIDR podsCIDR servicesCIDR =
        Invalid (Some [Key ''networks'']) (NetworksValue (Networks newConfig))
          (Text ''field is immutable'')
        # ValidateInfrastructureConfig L newConfig nodesCIDR podsCIDR servicesCIDR)"
  by (simp add: ValidateInfrastructureConfigUpdate_def ValidateImmutableField_def NewPath_def
      Let_def)

theorem update_rejects_changed_networks_witness:
  "Networks bothConfig \<noteq> Networks scenarioConfig \<and>
   ValidateInfrastructureConfig (specCIDR ParseCIDR) scenarioConfig ''10.0.0.0/16''
     (Some ''100.64.0.0/16'') (Some ''100.65.0.0/16'') = [] \<and>
   ValidateInfrastructureConfigUpdate (specCIDR ParseCIDR) bothConfig scenarioConfig
     ''10.0.0.0/16'' (Some ''100.64.0.0/16'') (Some ''100.65.0.0/16'') =
     [Invalid (Some [Key ''networks'']) (NetworksValue (Networks scenarioConfig))
        (Text ''field is immutable'')]"
proof -
  have h: "Networks bothConfig \<noteq> Networks scenarioConfig"
    by (simp add: bothConfig_def scenarioConfig_def)
  note t = update_rejects_changed_networks [of "specCIDR ParseCIDR" bothConfig scenarioConfig
      "''10.0.0.0/16''" "Some ''100.64.0.0/16''" "Some ''100.65.0.0/16''"]
  from t h have "ValidateInfrastructureConfigUpdate (specCIDR ParseCIDR) bothConfig scenarioConfig
      ''10.0.0.0/16'' (Some ''100.64.0.0/16'') (Some ''100.65.0.0/16'') =
      Invalid (Some [Key ''networks'']) (NetworksValue (Networks scenarioConfig))
        (Text ''field is immutable'')
      # ValidateInfrastructureConfig (specCIDR ParseCIDR) scenarioConfig ''10.0.0.0/16''
          (Some ''100.64.0.0/16'') (Some ''100.65.0.0/16'')"
    by blast
  with h scenario_16 show ?thesis by simp
qed

subsection \<open>The block of addresses and the network address\<close>

lemma blockSize_pos: "0 < blockSize n"
  by (simp add: blockSize_def)

lemma Contains_self: "Contains n (bits n) (IP n)"
  by (simp add: Contains_def)

lemma Contains_addresses:
  assumes "masked n"
  shows "Contains n w a \<longleftrightarrow> (w, a) \<in> addresses n"
proof -
  from assms obtain k where k: "IP n = blockSize n * k"
    by (auto simp: masked_def)
  have pos: "0 < blockSize n" by (rule blockSize_pos)
  have "a div blockSize n = k \<longleftrightarrow> blockSize n * k \<le> a \<and> a < blockSize n * k + blockSize n"
  proof
    assume "a div blockSize n = k"
    then have "a = blockSize n * k + a mod blockSize n"
      by (metis mult_div_mod_eq)
    with pos show "blockSize n * k \<le> a \<and> a < blockSize n * k + blockSize n"
      by (metis le_add1 mod_less_divisor nat_add_left_cancel_less)
  next
    assume b: "blockSize n * k \<le> a \<and> a < blockSize n * k + blockSize n"
    then obtain r where r: "a = blockSize n * k + r" and "r < blockSize n"
      by (metis le_Suc_ex nat_add_left_cancel_less)
    then show "a div blockSize n = k" using pos by simp
  qed
  with k pos show ?thesis
    by (auto simp: Contains_def addresses_def)
qed

lemma subset_Contains:
  assumes "masked n" and "addresses m \<subseteq> addresses n"
  shows "Contains n (bits m) (IP m)"
proof -
  have "(bits m, IP m) \<in> addresses m"
    using blockSize_pos [of m] by (simp add: addresses_def)
  with assms(2) have "(bits m, IP m) \<in> addresses n" by blast
  with assms(1) show ?thesis by (simp add: Contains_addresses)
qed

subsection \<open>The shape of the errors of the package\<close>

lemma Field_Invalid [simp]: "Field' (Invalid p v d) = p"
  by (simp add: Invalid_def)

lemma Detail_Invalid [simp]: "Detail (Invalid p v d) = d"
  by (simp add: Invalid_def)

lemma BadValue_Invalid [simp]: "BadValue (Invalid p v d) = v"
  by (simp add: Invalid_def)

lemma Detail_Required [simp]: "Detail (Required p d) = Text d"
  by (simp add: Required_def)

lemma Field_Required [simp]: "Field' (Required p d) = p"
  by (simp add: Required_def)

lemma spec_fields [simp]:
  "NewCIDR (specCIDR P) = specNewCIDR"
  "ValidateCIDRIsCanonical (specCIDR P) = specValidateCIDRIsCanonical P"
  "ValidateCIDRParse (specCIDR P) = specValidateCIDRParse P"
  "ValidateParse (specCIDR P) = specValidateParse P"
  "ValidateSubset (specCIDR P) = specValidateSubset P"
  "ValidateNotSubset (specCIDR P) = specValidateNotSubset P"
  "ValidateCIDROverlap (specCIDR P) = specValidateCIDROverlap P"
  by (simp_all add: specCIDR_def)

lemma zonePath_neq_vpc [simp]:
  "zonePath k name \<noteq> [Key ''networks'', Key ''vpc'', Key ''cidr'']"
  "zonePath k name \<noteq> [Key ''networks'', Key ''vpc'']"
  "zonePath k name \<noteq> [Key ''networks'', Key ''zones'']"
  "[Key ''networks'', Key ''vpc'', Key ''cidr''] \<noteq> zonePath k name"
  "[Key ''networks'', Key ''vpc''] \<noteq> zonePath k name"
  "[Key ''networks'', Key ''zones''] \<noteq> zonePath k name"
  by (simp_all add: zonePath_def)

lemma zonePath_inject [simp]: "zonePath i a = zonePath j b \<longleftrightarrow> i = j \<and> a = b"
  by (auto simp: zonePath_def)

lemma specValidateCIDRIsCanonical_shape:
  "e \<in> set (specValidateCIDRIsCanonical P p s) \<Longrightarrow> e = Invalid p (StringValue s) NotCanonical"
  by (auto simp: specValidateCIDRIsCanonical_def split: option.splits if_splits)

lemma canonicalErrs_spec_shape:
  "e \<in> set (canonicalErrs (specCIDR P) i zones) \<Longrightarrow>
     \<exists>k name s. e = Invalid (Some (zonePath k name)) (StringValue s) NotCanonical"
proof (induction zones arbitrary: i)
  case Nil
  then show ?case by simp
next
  case (Cons zone zones)
  from Cons.prems Cons.IH [of "Suc i"] show ?case
    by (auto dest!: specValidateCIDRIsCanonical_shape)
qed

lemma specValidateParse_shape:
  "e \<in> set (specValidateParse P c) \<Longrightarrow>
     e = Invalid (fieldPath c) (StringValue (cidr c)) NotParseable"
  by (auto simp: specValidateParse_def split: option.splits)

lemma specValidateCIDRParse_shape:
  "e \<in> set (specValidateCIDRParse P cs) \<Longrightarrow>
     \<exists>c. Some c \<in> set cs \<and> e = Invalid (fieldPath c) (StringValue (cidr c)) NotParseable"
  by (auto simp: specValidateCIDRParse_def split: option.splits dest!: specValidateParse_shape)


lemma specValidateSubset_shape:
  assumes "e \<in> set (specValidateSubset P c subsets)"
  shows "\<exists>sub ip m. Some sub \<in> set subsets \<and> sub \<noteq> c \<and> P (cidr sub) = Some (ip, m) \<and>
           e = Invalid (fieldPath sub) (StringValue (cidr sub)) (MustBeSubsetOf c)"
proof -
  from assms obtain n where n: "GetIPNet P c = Some n"
    by (cases "GetIPNet P c") (simp_all add: specValidateSubset_def)
  with assms obtain s where s: "s \<in> set subsets"
    and e: "e \<in> set (case s of
                None \<Rightarrow> []
              | Some sub \<Rightarrow>
                  if sub = c then []
                  else (case GetIPNet P sub of
                          None \<Rightarrow> []
                        | Some m \<Rightarrow>
                            if \<not> Contains n (bits m) (IP m)
                            then [Invalid (fieldPath sub) (StringValue (cidr sub))
                                    (MustBeSubsetOf c)]
                            else []))"
    by (auto simp: specValidateSubset_def)
  from e obtain sub where sub: "s = Some sub" by (cases s) auto
  from e sub have ne: "sub \<noteq> c" by (auto split: if_splits)
  from e sub ne obtain m where m: "GetIPNet P sub = Some m"
    by (cases "GetIPNet P sub") auto
  from e sub ne m have "e = Invalid (fieldPath sub) (StringValue (cidr sub)) (MustBeSubsetOf c)"
    by (auto split: if_splits)
  moreover from m obtain ip where "P (cidr sub) = Some (ip, m)"
    by (auto simp: GetIPNet_def split: option.splits)
  ultimately show ?thesis using s sub ne by blast
qed

lemma specValidateNotSubset_shape:
  assumes "e \<in> set (specValidateNotSubset P c subsets)"
  shows "\<exists>sub ip m. Some sub \<in> set subsets \<and> sub \<noteq> c \<and> P (cidr sub) = Some (ip, m) \<and>
           e = Invalid (fieldPath sub) (StringValue (cidr sub)) (MustNotBeSubsetOf c)"
proof -
  from assms obtain n where n: "GetIPNet P c = Some n"
    by (cases "GetIPNet P c") (simp_all add: specValidateNotSubset_def)
  with assms obtain s where s: "s \<in> set subsets"
    and e: "e \<in> set (case s of
                None \<Rightarrow> []
              | Some sub \<Rightarrow>
                  if sub = c then []
                  else (case GetIPNet P sub of
                          None \<Rightarrow> []
                        | Some m \<Rightarrow>
                            if Contains n (bits m) (IP m)
                            then [Invalid (fieldPath sub) (StringValue (cidr sub))
                                    (MustNotBeSubsetOf c)]
                            else []))"
    by (auto simp: specValidateNotSubset_def)
  from e obtain sub where sub: "s = Some sub" by (cases s) auto
  from e sub have ne: "sub \<noteq> c" by (auto split: if_splits)
  from e sub ne obtain m where m: "GetIPNet P sub = Some m"
    by (cases "GetIPNet P sub") auto
  from e sub ne m have "e = Invalid (fieldPath sub) (StringValue (cidr sub)) (MustNotBeSubsetOf c)"
    by (auto split: if_splits)
  moreover from m obtain ip where "P (cidr sub) = Some (ip, m)"
    by (auto simp: GetIPNet_def split: option.splits)
  ultimately show ?thesis using s sub ne by blast
qed

lemma specValidateCIDROverlap_shape:
  assumes "e \<in> set (specValidateCIDROverlap P ls rs False)"
  shows "\<exists>l sub ip m. Some l \<in> set ls \<and> Some sub \<in> set rs \<and> sub \<noteq> l \<and>
           P (cidr sub) = Some (ip, m) \<and>
           e = Invalid (fieldPath sub) (StringValue (cidr sub)) (MustNotBeSubsetOf l)"
proof -
  from assms obtain l where l: "Some l \<in> set ls" and "e \<in> set (specValidateNotSubset P l rs)"
    by (auto simp: specValidateCIDROverlap_def split: option.splits)
  then show ?thesis
    using specValidateNotSubset_shape by blast
qed

lemma zoneCIDRs_spec_shape:
  "Some d \<in> set (zoneCIDRs (specCIDR P) i zones) \<Longrightarrow>
     \<exists>k name s. d = \<lparr>cidr = s, fieldPath = Some (zonePath k name)\<rparr>"
proof (induction zones arbitrary: i)
  case Nil
  then show ?case by simp
next
  case (Cons zone zones)
  from Cons.prems Cons.IH [of "Suc i"] show ?case
    by (auto simp: specNewCIDR_def)
qed

lemma zoneWorkerCIDRs_spec_shape:
  "Some d \<in> set (zoneWorkerCIDRs (specCIDR P) i zones) \<Longrightarrow>
     \<exists>k\<ge>i. \<exists>s. d = \<lparr>cidr = s, fieldPath = Some (zonePath k ''workers'')\<rparr>"
proof (induction zones arbitrary: i)
  case Nil
  then show ?case by simp
next
  case (Cons zone zones)
  from Cons.prems consider "d = specNewCIDR (Workers zone) (Some (zonePath i ''workers''))"
    | "Some d \<in> set (zoneWorkerCIDRs (specCIDR P) (Suc i) zones)"
    by auto
  then show ?case
  proof cases
    case 1
    then show ?thesis by (auto simp: specNewCIDR_def)
  next
    case 2
    with Cons.IH [of "Suc i"] obtain k s where "Suc i \<le> k"
      and "d = \<lparr>cidr = s, fieldPath = Some (zonePath k ''workers'')\<rparr>" by blast
    then show ?thesis by (intro exI [of _ k]) simp
  qed
qed


subsection \<open>The shape of the errors of the validator\<close>

lemma zoneErrs_spec_shape:
  assumes "e \<in> set (zoneErrs (specCIDR P) infra nodesCIDR)"
  shows "(\<exists>t. e = Required (Some [Key ''networks'', Key ''zones'']) t) \<or>
         (\<exists>k name s. e = Invalid (Some (zonePath k name)) (StringValue s) NotCanonical) \<or>
         (\<exists>k name s. e = Invalid (Some (zonePath k name)) (StringValue s) NotParseable) \<or>
         (\<exists>k name s. e = Invalid (Some (zonePath k name)) (StringValue s)
            (MustBeSubsetOf \<lparr>cidr = nodesCIDR, fieldPath = None\<rparr>))"
proof -
  from assms consider "e \<in> set (requiredErrs infra)"
    | "e \<in> set (canonicalErrs (specCIDR P) 0 (Zones (Networks infra)))"
    | "e \<in> set (parseErrs (specCIDR P) infra)"
    | "e \<in> set (workerSubsetErrs (specCIDR P) infra nodesCIDR)"
    by (auto simp: zoneErrs_def)
  then show ?thesis
  proof cases
    case 1
    then show ?thesis by (auto simp: requiredErrs_def split: if_splits)
  next
    case 2
    then show ?thesis using canonicalErrs_spec_shape by blast
  next
    case 3
    then have "e \<in> set (specValidateCIDRParse P
                 (zoneCIDRs (specCIDR P) 0 (Zones (Networks infra))))"
      by (simp add: parseErrs_def)
    then obtain c where c: "Some c \<in> set (zoneCIDRs (specCIDR P) 0 (Zones (Networks infra)))"
      and e: "e = Invalid (fieldPath c) (StringValue (cidr c)) NotParseable"
      using specValidateCIDRParse_shape by blast
    from c obtain k name s where "c = \<lparr>cidr = s, fieldPath = Some (zonePath k name)\<rparr>"
      using zoneCIDRs_spec_shape by blast
    with e have "e = Invalid (Some (zonePath k name)) (StringValue s) NotParseable" by simp
    then show ?thesis by blast
  next
    case 4
    then have "e \<in> set (specValidateSubset P \<lparr>cidr = nodesCIDR, fieldPath = None\<rparr>
                 (zoneWorkerCIDRs (specCIDR P) 0 (Zones (Networks infra))))"
      by (simp add: workerSubsetErrs_def specNewCIDR_def)
    then obtain sub where
      sub: "Some sub \<in> set (zoneWorkerCIDRs (specCIDR P) 0 (Zones (Networks infra)))"
      and e: "e = Invalid (fieldPath sub) (StringValue (cidr sub))
                 (MustBeSubsetOf \<lparr>cidr = nodesCIDR, fieldPath = None\<rparr>)"
      using specValidateSubset_shape by blast
    from sub obtain k s where "sub = \<lparr>cidr = s, fieldPath = Some (zonePath k ''workers'')\<rparr>"
      using zoneWorkerCIDRs_spec_shape by blast
    with e have "e = Invalid (Some (zonePath k ''workers'')) (StringValue s)
                       (MustBeSubsetOf \<lparr>cidr = nodesCIDR, fieldPath = None\<rparr>)" by simp
    then show ?thesis by blast
  qed
qed

lemma vpcCIDRErrs_spec_shape:
  assumes "e \<in> set (vpcCIDRErrs (specCIDR P) infra nodesCIDR podsCIDR servicesCIDR c)"
  shows "e = Invalid (Some [Key ''networks'', Key ''vpc'', Key ''cidr'']) (StringValue c)
               NotCanonical \<or>
         e = Invalid (Some [Key ''networks'', Key ''vpc'', Key ''cidr'']) (StringValue c)
               NotParseable \<or>
         (\<exists>ip n. P nodesCIDR = Some (ip, n) \<and>
            e = Invalid None (StringValue nodesCIDR)
                  (MustBeSubsetOf
                     \<lparr>cidr = c, fieldPath = Some [Key ''networks'', Key ''vpc'', Key ''cidr'']\<rparr>)) \<or>
         (\<exists>k name s. e = Invalid (Some (zonePath k name)) (StringValue s)
            (MustBeSubsetOf
               \<lparr>cidr = c, fieldPath = Some [Key ''networks'', Key ''vpc'', Key ''cidr'']\<rparr>)) \<or>
         (\<exists>s ip m. (podsCIDR = Some s \<or> servicesCIDR = Some s) \<and> P s = Some (ip, m) \<and>
            e = vpcNotSubsetErr c s)"
proof -
  let ?p = "[Key ''networks'', Key ''vpc'', Key ''cidr'']"
  let ?vpc = "\<lparr>cidr = c, fieldPath = Some ?p\<rparr>"
  from assms consider
    "e \<in> set (specValidateCIDRIsCanonical P (Some ?p) c)"
    | "e \<in> set (specValidateParse P ?vpc)"
    | "e \<in> set (specValidateSubset P ?vpc [Some \<lparr>cidr = nodesCIDR, fieldPath = None\<rparr>])"
    | "e \<in> set (specValidateSubset P ?vpc (zoneCIDRs (specCIDR P) 0 (Zones (Networks infra))))"
    | "e \<in> set (specValidateNotSubset P ?vpc
               [optCIDR (specCIDR P) podsCIDR, optCIDR (specCIDR P) servicesCIDR])"
    by (auto simp: vpcCIDRErrs_def Let_def specNewCIDR_def)
  then show ?thesis
  proof cases
    case 1
    then show ?thesis using specValidateCIDRIsCanonical_shape by blast
  next
    case 2
    from specValidateParse_shape [OF 2] show ?thesis by simp
  next
    case 3
    then obtain sub ip m where "Some sub \<in> set [Some \<lparr>cidr = nodesCIDR, fieldPath = None\<rparr>]"
      and "P (cidr sub) = Some (ip, m)"
      and "e = Invalid (fieldPath sub) (StringValue (cidr sub)) (MustBeSubsetOf ?vpc)"
      using specValidateSubset_shape by blast
    then have "P nodesCIDR = Some (ip, m) \<and>
        e = Invalid None (StringValue nodesCIDR) (MustBeSubsetOf ?vpc)" by auto
    then show ?thesis by blast
  next
    case 4
    then obtain sub where
      sub: "Some sub \<in> set (zoneCIDRs (specCIDR P) 0 (Zones (Networks infra)))"
      and e: "e = Invalid (fieldPath sub) (StringValue (cidr sub)) (MustBeSubsetOf ?vpc)"
      using specValidateSubset_shape by blast
    from sub obtain k name s where "sub = \<lparr>cidr = s, fieldPath = Some (zonePath k name)\<rparr>"
      using zoneCIDRs_spec_shape by blast
    with e have "e = Invalid (Some (zonePath k name)) (StringValue s) (MustBeSubsetOf ?vpc)"
      by simp
    then show ?thesis by blast
  next
    case 5
    then obtain sub ip m where
      s: "Some sub \<in> set [optCIDR (specCIDR P) podsCIDR, optCIDR (specCIDR P) servicesCIDR]"
      and p: "P (cidr sub) = Some (ip, m)"
      and e: "e = Invalid (fieldPath sub) (StringValue (cidr sub)) (MustNotBeSubsetOf ?vpc)"
      using specValidateNotSubset_shape by blast
    from s have "fieldPath sub = None \<and> (podsCIDR = Some (cidr sub) \<or> servicesCIDR = Some (cidr sub))"
      by (auto simp: optCIDR_def specNewCIDR_def split: option.splits)
    with p e have "(podsCIDR = Some (cidr sub) \<or> servicesCIDR = Some (cidr sub)) \<and>
        P (cidr sub) = Some (ip, m) \<and> e = vpcNotSubsetErr c (cidr sub)"
      by (simp add: vpcNotSubsetErr_def)
    then show ?thesis by blast
  qed
qed

lemma vpcErrs_spec_shape:
  assumes "e \<in> set (vpcErrs (specCIDR P) infra nodesCIDR podsCIDR servicesCIDR)"
  shows "e = vpcDescriptorErr (VPC (Networks infra)) \<or>
         (\<exists>c. CIDR (VPC (Networks infra)) = Some c \<and>
            e \<in> set (vpcCIDRErrs (specCIDR P) infra nodesCIDR podsCIDR servicesCIDR c))"
  using assms by (auto simp: vpcErrs_def split: option.splits)

lemma overlapErrs_spec_shape:
  assumes "e \<in> set (overlapErrs (specCIDR P) infra podsCIDR servicesCIDR)"
  shows "\<exists>l k name s. e = Invalid (Some (zonePath k name)) (StringValue s) (MustNotBeSubsetOf l) \<and>
           (fieldPath l = None \<or> (\<exists>k' name'. fieldPath l = Some (zonePath k' name')))"
proof -
  let ?cs = "zoneCIDRs (specCIDR P) 0 (Zones (Networks infra))"
  from assms consider
    (zones) "e \<in> set (specValidateCIDROverlap P ?cs ?cs False)"
    | (pods) "e \<in> set (specValidateCIDROverlap P
               [optCIDR (specCIDR P) podsCIDR, optCIDR (specCIDR P) servicesCIDR] ?cs False)"
    by (auto simp: overlapErrs_def zoneOverlapErrs_def)
  then show ?thesis
  proof cases
    case zones
    then obtain l sub where l: "Some l \<in> set ?cs" and sub: "Some sub \<in> set ?cs"
      and e: "e = Invalid (fieldPath sub) (StringValue (cidr sub)) (MustNotBeSubsetOf l)"
      using specValidateCIDROverlap_shape by blast
    from l obtain k' name' s' where lk: "l = \<lparr>cidr = s', fieldPath = Some (zonePath k' name')\<rparr>"
      using zoneCIDRs_spec_shape by blast
    from sub obtain k name s where sk: "sub = \<lparr>cidr = s, fieldPath = Some (zonePath k name)\<rparr>"
      using zoneCIDRs_spec_shape by blast
    from e sk have "e = Invalid (Some (zonePath k name)) (StringValue s) (MustNotBeSubsetOf l)"
      by simp
    moreover from lk have "fieldPath l = Some (zonePath k' name')" by simp
    ultimately show ?thesis by blast
  next
    case pods
    then obtain l sub where
      l: "Some l \<in> set [optCIDR (specCIDR P) podsCIDR, optCIDR (specCIDR P) servicesCIDR]"
      and sub: "Some sub \<in> set ?cs"
      and e: "e = Invalid (fieldPath sub) (StringValue (cidr sub)) (MustNotBeSubsetOf l)"
      using specValidateCIDROverlap_shape by blast
    from l have lk: "fieldPath l = None"
      by (auto simp: optCIDR_def specNewCIDR_def split: option.splits)
    from sub obtain k name s where sk: "sub = \<lparr>cidr = s, fieldPath = Some (zonePath k name)\<rparr>"
      using zoneCIDRs_spec_shape by blast
    from e sk have "e = Invalid (Some (zonePath k name)) (StringValue s) (MustNotBeSubsetOf l)"
      by simp
    with lk show ?thesis by blast
  qed
qed

lemma errsOf_append [simp]: "errsOf p d (xs @ ys) = errsOf p d xs @ errsOf p d ys"
  by (simp add: errsOf_def)

lemma errsOf_none:
  "(\<And>e. e \<in> set xs \<Longrightarrow> Field' e \<noteq> p \<or> Detail e \<noteq> d) \<Longrightarrow> errsOf p d xs = []"
  by (auto simp: errsOf_def filter_empty_conv)

lemma errsOf_all:
  "(\<And>e. e \<in> set xs \<Longrightarrow> Field' e = p \<and> Detail e = d) \<Longrightarrow> errsOf p d xs = xs"
  by (auto simp: errsOf_def filter_id_conv)

subsection \<open>The end-to-end scenario\<close>

text \<open>
  Claim C1.  On the input of the spec's end-to-end scenario (one zone with the internal
  CIDR \<open>10.0.0.0/24\<close>, the public CIDR \<open>10.0.1.0/24\<close> and the worker CIDR
  \<open>10.0.2.0/24\<close>; the node CIDR \<open>10.0.0.0/8\<close>, the VPC CIDR \<open>10.0.0.0/16\<close>, the pod
  CIDR \<open>100.64.0.0/16\<close> and the service CIDR \<open>100.65.0.0/16\<close>) the validator returns
  the empty list.  The node block is larger than the VPC block; the subset check of the
  VPC block passes it because its network address \<open>10.0.0.0\<close> is in the VPC block.
\<close>

theorem scenario_returns_no_error:
  "ValidateInfrastructureConfig (specCIDR ParseCIDR)
     \<lparr>Networks =
        \<lparr>VPC = \<lparr>ID = None, CIDR = Some ''10.0.0.0/16''\<rparr>,
         Zones = [\<lparr>Internal = ''10.0.0.0/24'', Public = ''10.0.1.0/24'',
                   Workers = ''10.0.2.0/24''\<rparr>]\<rparr>\<rparr>
     ''10.0.0.0/8'' (Some ''100.64.0.0/16'') (Some ''100.65.0.0/16'') = []"
  by (simp add: ValidateInfrastructureConfig_parts parts_simps spec_simps literal_parses)

subsection \<open>Worker blocks and the node block\<close>

lemma specValidateSubset_Nil [simp]: "specValidateSubset P c [] = []"
  by (simp add: specValidateSubset_def split: option.splits)










subsection \<open>The VPC block against the pod and service blocks\<close>

lemma errsOf_vpc_others:
  "errsOf None d (zoneErrs (specCIDR P) infra nodesCIDR) = []"
  "errsOf None d (overlapErrs (specCIDR P) infra podsCIDR servicesCIDR) = []"
proof -
  show "errsOf None d (zoneErrs (specCIDR P) infra nodesCIDR) = []"
  proof (rule errsOf_none)
    fix e
    assume "e \<in> set (zoneErrs (specCIDR P) infra nodesCIDR)"
    from zoneErrs_spec_shape [OF this] have "Field' e \<noteq> None" by auto
    then show "Field' e \<noteq> None \<or> Detail e \<noteq> d" ..
  qed
  show "errsOf None d (overlapErrs (specCIDR P) infra podsCIDR servicesCIDR) = []"
  proof (rule errsOf_none)
    fix e
    assume "e \<in> set (overlapErrs (specCIDR P) infra podsCIDR servicesCIDR)"
    from overlapErrs_spec_shape [OF this] have "Field' e \<noteq> None" by auto
    then show "Field' e \<noteq> None \<or> Detail e \<noteq> d" ..
  qed
qed

lemma errsOf_vpcCIDRErrs:
  assumes "P c = Some (ip, v)"
  shows "errsOf None
           (MustNotBeSubsetOf
              \<lparr>cidr = c, fieldPath = Some [Key ''networks'', Key ''vpc'', Key ''cidr'']\<rparr>)
           (vpcCIDRErrs (specCIDR P) infra nodesCIDR podsCIDR servicesCIDR c) =
         vpcNotSubsetErrs P v c podsCIDR @ vpcNotSubsetErrs P v c servicesCIDR"
proof -
  let ?p = "[Key ''networks'', Key ''vpc'', Key ''cidr'']"
  let ?vpc = "\<lparr>cidr = c, fieldPath = Some ?p\<rparr>"
  let ?d = "MustNotBeSubsetOf ?vpc"
  have a: "errsOf None ?d (specValidateCIDRIsCanonical P (Some ?p) c) = []"
    by (rule errsOf_none) (auto dest!: specValidateCIDRIsCanonical_shape)
  have b: "errsOf None ?d (specValidateParse P ?vpc) = []"
    by (rule errsOf_none) (auto dest!: specValidateParse_shape)
  have c: "errsOf None ?d (specValidateSubset P ?vpc subs) = []" for subs
    by (rule errsOf_none) (auto dest!: specValidateSubset_shape)
  have d: "errsOf None ?d (specValidateNotSubset P ?vpc
             [optCIDR (specCIDR P) podsCIDR, optCIDR (specCIDR P) servicesCIDR]) =
           vpcNotSubsetErrs P v c podsCIDR @ vpcNotSubsetErrs P v c servicesCIDR"
    using assms
    by (auto simp: specValidateNotSubset_def GetIPNet_def specNewCIDR_def optCIDR_def
        vpcNotSubsetErrs_def vpcNotSubsetErr_def errsOf_def split: option.splits)
  show ?thesis
    by (simp add: vpcCIDRErrs_def Let_def specNewCIDR_def a b c d)
qed

lemma vpc_field_errors:
  assumes "e \<in> set (ValidateInfrastructureConfig (specCIDR P) infra nodesCIDR podsCIDR
                      servicesCIDR)"
    and "Field' e = Some [Key ''networks'', Key ''vpc'', Key ''cidr'']"
  shows "Detail e = NotCanonical \<or> Detail e = NotParseable"
proof -
  from assms(1) consider "e \<in> set (zoneErrs (specCIDR P) infra nodesCIDR)"
    | "e = vpcDescriptorErr (VPC (Networks infra))"
    | c where "e \<in> set (vpcCIDRErrs (specCIDR P) infra nodesCIDR podsCIDR servicesCIDR c)"
    | "e \<in> set (overlapErrs (specCIDR P) infra podsCIDR servicesCIDR)"
    using vpcErrs_spec_shape by (fastforce simp: ValidateInfrastructureConfig_parts)
  then show ?thesis
  proof cases
    case 1
    from zoneErrs_spec_shape [OF 1] assms(2) show ?thesis by auto
  next
    case 2
    with assms(2) show ?thesis by (simp add: vpcDescriptorErr_def)
  next
    case 3
    from vpcCIDRErrs_spec_shape [OF 3] assms(2) show ?thesis
      by (auto simp: vpcNotSubsetErr_def)
  next
    case 4
    from overlapErrs_spec_shape [OF 4] assms(2) show ?thesis by auto
  qed
qed

lemma vpcNotSubsetErr_mem:
  "vpcNotSubsetErr c s \<in> set errs \<longleftrightarrow>
     vpcNotSubsetErr c s \<in> set (errsOf None
       (MustNotBeSubsetOf
          \<lparr>cidr = c, fieldPath = Some [Key ''networks'', Key ''vpc'', Key ''cidr'']\<rparr>) errs)"
  by (auto simp: errsOf_def vpcNotSubsetErr_def)

lemma vpcNotSubsetErrs_mem:
  "vpcNotSubsetErr c s \<in> set (vpcNotSubsetErrs P v c other) \<longleftrightarrow>
     other = Some s \<and> (\<exists>ip m. P s = Some (ip, m) \<and> Contains v (bits m) (IP m))"
proof (cases other)
  case None
  then show ?thesis by (simp add: vpcNotSubsetErrs_def)
next
  case (Some s')
  show ?thesis
  proof (cases "P s'")
    case None
    with Some show ?thesis by (auto simp: vpcNotSubsetErrs_def)
  next
    case (Some a)
    obtain ip m where "a = (ip, m)" by (cases a)
    with Some \<open>other = Some s'\<close> show ?thesis
      by (auto simp: vpcNotSubsetErrs_def vpcNotSubsetErr_def Invalid_def)
  qed
qed

text \<open>
  Claim C2, amended.  Let the VPC descriptor be an explicit CIDR that parses.  For each
  of the pod CIDR and the service CIDR that is supplied and parses, the result holds
  one \<open>Invalid\<close> error when the network address of its block is in the VPC block, in
  particular when its block is a subset of the VPC block, and no error when it is not,
  also when its block contains the VPC block.  The error is on the nil path of the pod or
  service descriptor, with the pod or service CIDR as its value, and its message names
  the VPC CIDR field; these are the only errors of the result on the nil path that name
  the VPC CIDR as a block not to be a subset of, the pod CIDR's before the service
  CIDR's.  No error of the result on the VPC CIDR field reports anything but the
  canonical form or the parsing of the VPC CIDR.
\<close>

theorem vpc_not_subset_errors:
  assumes "ID (VPC (Networks infra)) = None" and "CIDR (VPC (Networks infra)) = Some c"
    and "P c = Some (ip, v)"
  shows "errsOf None
           (MustNotBeSubsetOf
              \<lparr>cidr = c, fieldPath = Some [Key ''networks'', Key ''vpc'', Key ''cidr'']\<rparr>)
           (ValidateInfrastructureConfig (specCIDR P) infra nodesCIDR podsCIDR servicesCIDR) =
           vpcNotSubsetErrs P v c podsCIDR @ vpcNotSubsetErrs P v c servicesCIDR \<and>
         (\<forall>s ip' m. (podsCIDR = Some s \<or> servicesCIDR = Some s) \<and> P s = Some (ip', m) \<and>
            Contains v (bits m) (IP m) \<longrightarrow>
            Invalid None (StringValue s)
              (MustNotBeSubsetOf
                 \<lparr>cidr = c, fieldPath = Some [Key ''networks'', Key ''vpc'', Key ''cidr'']\<rparr>)
            \<in> set (ValidateInfrastructureConfig (specCIDR P) infra nodesCIDR podsCIDR
                     servicesCIDR)) \<and>
         (\<forall>s ip' m. (podsCIDR = Some s \<or> servicesCIDR = Some s) \<and> P s = Some (ip', m) \<and>
            masked v \<and> addresses m \<subseteq> addresses v \<longrightarrow>
            Invalid None (StringValue s)
              (MustNotBeSubsetOf
                 \<lparr>cidr = c, fieldPath = Some [Key ''networks'', Key ''vpc'', Key ''cidr'']\<rparr>)
            \<in> set (ValidateInfrastructureConfig (specCIDR P) infra nodesCIDR podsCIDR
                     servicesCIDR)) \<and>
         (\<forall>s ip' m. P s = Some (ip', m) \<and> \<not> Contains v (bits m) (IP m) \<longrightarrow>
            Invalid None (StringValue s)
              (MustNotBeSubsetOf
                 \<lparr>cidr = c, fieldPath = Some [Key ''networks'', Key ''vpc'', Key ''cidr'']\<rparr>)
            \<notin> set (ValidateInfrastructureConfig (specCIDR P) infra nodesCIDR podsCIDR
                     servicesCIDR)) \<and>
         (\<forall>e \<in> set (ValidateInfrastructureConfig (specCIDR P) infra nodesCIDR podsCIDR
                      servicesCIDR).
            Field' e = Some [Key ''networks'', Key ''vpc'', Key ''cidr''] \<longrightarrow>
            Detail e = NotCanonical \<or> Detail e = NotParseable)"
proof -
  let ?res = "ValidateInfrastructureConfig (specCIDR P) infra nodesCIDR podsCIDR servicesCIDR"
  let ?d = "MustNotBeSubsetOf
      \<lparr>cidr = c, fieldPath = Some [Key ''networks'', Key ''vpc'', Key ''cidr'']\<rparr>"
  have eq: "errsOf None ?d ?res =
      vpcNotSubsetErrs P v c podsCIDR @ vpcNotSubsetErrs P v c servicesCIDR"
    using assms(1,2) errsOf_vpcCIDRErrs [of P c ip v infra nodesCIDR podsCIDR servicesCIDR,
        OF assms(3)]
    by (simp add: ValidateInfrastructureConfig_parts errsOf_vpc_others vpcErrs_def)
  have mem: "Invalid None (StringValue s) ?d \<in> set ?res \<longleftrightarrow>
      (podsCIDR = Some s \<or> servicesCIDR = Some s) \<and>
      (\<exists>ip' m. P s = Some (ip', m) \<and> Contains v (bits m) (IP m))" for s
  proof -
    have "Invalid None (StringValue s) ?d = vpcNotSubsetErr c s"
      by (simp add: vpcNotSubsetErr_def)
    then have "Invalid None (StringValue s) ?d \<in> set ?res \<longleftrightarrow>
        vpcNotSubsetErr c s \<in> set (vpcNotSubsetErrs P v c podsCIDR) \<or>
        vpcNotSubsetErr c s \<in> set (vpcNotSubsetErrs P v c servicesCIDR)"
      using vpcNotSubsetErr_mem [of c s ?res] by (simp add: eq)
    then show ?thesis
      by (auto simp: vpcNotSubsetErrs_mem)
  qed
  show ?thesis
  proof (intro conjI allI impI ballI)
    show "errsOf None ?d ?res =
        vpcNotSubsetErrs P v c podsCIDR @ vpcNotSubsetErrs P v c servicesCIDR"
      by (rule eq)
  next
    fix s ip' m
    assume "(podsCIDR = Some s \<or> servicesCIDR = Some s) \<and> P s = Some (ip', m) \<and>
      Contains v (bits m) (IP m)"
    then show "Invalid None (StringValue s) ?d \<in> set ?res"
      by (auto simp: mem)
  next
    fix s ip' m
    assume a: "(podsCIDR = Some s \<or> servicesCIDR = Some s) \<and> P s = Some (ip', m) \<and>
      masked v \<and> addresses m \<subseteq> addresses v"
    then have "Contains v (bits m) (IP m)" using subset_Contains by blast
    with a show "Invalid None (StringValue s) ?d \<in> set ?res"
      by (auto simp: mem)
  next
    fix s ip' m
    assume "P s = Some (ip', m) \<and> \<not> Contains v (bits m) (IP m)"
    then show "Invalid None (StringValue s) ?d \<notin> set ?res"
      by (auto simp: mem)
  next
    fix e
    assume "e \<in> set ?res" and "Field' e = Some [Key ''networks'', Key ''vpc'', Key ''cidr'']"
    then show "Detail e = NotCanonical \<or> Detail e = NotParseable"
      by (rule vpc_field_errors)
  qed
qed

theorem vpc_not_subset_errors_witness:
  "ID (VPC (Networks scenarioConfig)) = None \<and>
   CIDR (VPC (Networks scenarioConfig)) = Some ''10.0.0.0/16'' \<and>
   ParseCIDR ''10.0.0.0/16'' = Some (167772160, \<lparr>IP = 167772160, ones = 16, bits = 32\<rparr>) \<and>
   ParseCIDR ''10.0.5.0/24'' = Some (167773440, \<lparr>IP = 167773440, ones = 24, bits = 32\<rparr>) \<and>
   Contains \<lparr>IP = 167772160, ones = 16, bits = 32\<rparr> 32 167773440 \<and>
   errsOf None
     (MustNotBeSubsetOf
        \<lparr>cidr = ''10.0.0.0/16'', fieldPath = Some [Key ''networks'', Key ''vpc'', Key ''cidr'']\<rparr>)
     (ValidateInfrastructureConfig (specCIDR ParseCIDR) scenarioConfig ''10.0.0.0/16''
        (Some ''10.0.5.0/24'') (Some ''100.65.0.0/16'')) =
     [Invalid None (StringValue ''10.0.5.0/24'')
        (MustNotBeSubsetOf
           \<lparr>cidr = ''10.0.0.0/16'',
              fieldPath = Some [Key ''networks'', Key ''vpc'', Key ''cidr'']\<rparr>)]"
proof -
  have h1: "ID (VPC (Networks scenarioConfig)) = None"
    and h2: "CIDR (VPC (Networks scenarioConfig)) = Some ''10.0.0.0/16''"
    by (simp_all add: scenarioConfig_def)
  have h3: "Contains \<lparr>IP = 167772160, ones = 16, bits = 32\<rparr> 32 167773440"
    by (simp add: Contains_def blockSize_def)
  note t = vpc_not_subset_errors [where P = ParseCIDR and infra = scenarioConfig
      and c = "''10.0.0.0/16''" and ip = 167772160
      and v = "\<lparr>IP = 167772160, ones = 16, bits = 32\<rparr>" and nodesCIDR = "''10.0.0.0/16''"
      and podsCIDR = "Some ''10.0.5.0/24''" and servicesCIDR = "Some ''100.65.0.0/16''",
      OF h1 h2 parse_10_0_0_0_16]
  from t have "errsOf None
     (MustNotBeSubsetOf
        \<lparr>cidr = ''10.0.0.0/16'', fieldPath = Some [Key ''networks'', Key ''vpc'', Key ''cidr'']\<rparr>)
     (ValidateInfrastructureConfig (specCIDR ParseCIDR) scenarioConfig ''10.0.0.0/16''
        (Some ''10.0.5.0/24'') (Some ''100.65.0.0/16'')) =
     vpcNotSubsetErrs ParseCIDR \<lparr>IP = 167772160, ones = 16, bits = 32\<rparr> ''10.0.0.0/16''
       (Some ''10.0.5.0/24'')
     @ vpcNotSubsetErrs ParseCIDR \<lparr>IP = 167772160, ones = 16, bits = 32\<rparr> ''10.0.0.0/16''
       (Some ''100.65.0.0/16'')"
    by blast
  then have "errsOf None
     (MustNotBeSubsetOf
        \<lparr>cidr = ''10.0.0.0/16'', fieldPath = Some [Key ''networks'', Key ''vpc'', Key ''cidr'']\<rparr>)
     (ValidateInfrastructureConfig (specCIDR ParseCIDR) scenarioConfig ''10.0.0.0/16''
        (Some ''10.0.5.0/24'') (Some ''100.65.0.0/16'')) =
     [Invalid None (StringValue ''10.0.5.0/24'')
        (MustNotBeSubsetOf
           \<lparr>cidr = ''10.0.0.0/16'',
              fieldPath = Some [Key ''networks'', Key ''vpc'', Key ''cidr'']\<rparr>)]"
    by (simp add: vpcNotSubsetErrs_def vpcNotSubsetErr_def literal_parses Contains_def
        blockSize_def)
  with h1 h2 h3 parse_10_0_0_0_16 parse_10_0_5_0_24 show ?thesis by blast
qed

text \<open>
  Claim C2 as stated fails twice.  The pod block \<open>10.0.0.0/8\<close> contains the VPC block
  \<open>10.1.0.0/16\<close>, so the two intersect, and the validator reports nothing for the two:
  the three errors of its result are those of the zone blocks, which lie in the pod
  block.  And when the validator does report a pod block, \<open>10.0.5.0/24\<close> inside the VPC
  block \<open>10.0.0.0/16\<close>, the error is on the nil path of the pod descriptor, not on the
  VPC CIDR field.
\<close>

theorem pod_block_around_vpc_counterexample:
  "ParseCIDR ''10.1.0.0/16'' = Some (167837696, \<lparr>IP = 167837696, ones = 16, bits = 32\<rparr>) \<and>
   ParseCIDR ''10.0.0.0/8'' = Some (167772160, \<lparr>IP = 167772160, ones = 8, bits = 32\<rparr>) \<and>
   addresses \<lparr>IP = 167837696, ones = 16, bits = 32\<rparr>
     \<subseteq> addresses \<lparr>IP = 167772160, ones = 8, bits = 32\<rparr> \<and>
   ValidateInfrastructureConfig (specCIDR ParseCIDR) vpcInsidePodsConfig ''10.1.0.0/16''
     (Some ''10.0.0.0/8'') None =
     [Invalid (Some [Key ''networks'', Key ''zones'', Idx 0, Key ''internal''])
        (StringValue ''10.1.0.0/24'')
        (MustNotBeSubsetOf \<lparr>cidr = ''10.0.0.0/8'', fieldPath = None\<rparr>),
      Invalid (Some [Key ''networks'', Key ''zones'', Idx 0, Key ''public''])
        (StringValue ''10.1.1.0/24'')
        (MustNotBeSubsetOf \<lparr>cidr = ''10.0.0.0/8'', fieldPath = None\<rparr>),
      Invalid (Some [Key ''networks'', Key ''zones'', Idx 0, Key ''workers''])
        (StringValue ''10.1.2.0/24'')
        (MustNotBeSubsetOf \<lparr>cidr = ''10.0.0.0/8'', fieldPath = None\<rparr>)] \<and>
   ValidateInfrastructureConfig (specCIDR ParseCIDR) scenarioConfig ''10.0.0.0/16''
     (Some ''10.0.5.0/24'') None =
     [Invalid None (StringValue ''10.0.5.0/24'')
        (MustNotBeSubsetOf
           \<lparr>cidr = ''10.0.0.0/16'',
              fieldPath = Some [Key ''networks'', Key ''vpc'', Key ''cidr'']\<rparr>)]"
proof -
  have 1: "addresses \<lparr>IP = 167837696, ones = 16, bits = 32\<rparr>
      \<subseteq> addresses \<lparr>IP = 167772160, ones = 8, bits = 32\<rparr>"
    by (auto simp: addresses_def blockSize_def)
  have 2: "ValidateInfrastructureConfig (specCIDR ParseCIDR) vpcInsidePodsConfig ''10.1.0.0/16''
     (Some ''10.0.0.0/8'') None =
     [Invalid (Some [Key ''networks'', Key ''zones'', Idx 0, Key ''internal''])
        (StringValue ''10.1.0.0/24'')
        (MustNotBeSubsetOf \<lparr>cidr = ''10.0.0.0/8'', fieldPath = None\<rparr>),
      Invalid (Some [Key ''networks'', Key ''zones'', Idx 0, Key ''public''])
        (StringValue ''10.1.1.0/24'')
        (MustNotBeSubsetOf \<lparr>cidr = ''10.0.0.0/8'', fieldPath = None\<rparr>),
      Invalid (Some [Key ''networks'', Key ''zones'', Idx 0, Key ''workers''])
        (StringValue ''10.1.2.0/24'')
        (MustNotBeSubsetOf \<lparr>cidr = ''10.0.0.0/8'', fieldPath = None\<rparr>)]"
    by (simp add: ValidateInfrastructureConfig_parts parts_simps vpcInsidePodsConfig_def
        spec_simps literal_parses)
  have 3: "ValidateInfrastructureConfig (specCIDR ParseCIDR) scenarioConfig ''10.0.0.0/16''
     (Some ''10.0.5.0/24'') None =
     [Invalid None (StringValue ''10.0.5.0/24'')
        (MustNotBeSubsetOf
           \<lparr>cidr = ''10.0.0.0/16'',
              fieldPath = Some [Key ''networks'', Key ''vpc'', Key ''cidr'']\<rparr>)]"
    by (simp add: ValidateInfrastructureConfig_parts parts_simps scenarioConfig_def
        spec_simps literal_parses)
  from 1 2 3 parse_10_1_0_0_16 parse_10_0_0_0_8 show ?thesis by blast
qed

subsection \<open>Malformed CIDRs and internal errors\<close>








end
